theory Spec2Isabelle
  imports Main
begin

section \<open>Message queue (src/utils/MessageQueue.js)\<close>

text \<open>
  The queue hands upstream events from the browser bridge to one request handler.
  A call of \<open>dequeue\<close> creates a promise; when no message is buffered the promise's
  resolver object is parked in \<open>waitingResolvers\<close> together with a timer.  Object
  identity of these promises is modelled by a counter \<open>allocated\<close>: the n-th call of
  \<open>dequeue\<close> creates promise number n.  Settling a promise is an effect, recorded as a
  \<open>settlement\<close> in the order in which the source calls \<open>resolve\<close> and \<open>reject\<close>.
  Timers are not clocked: the timer callback of any resolver may run at any moment
  (event \<open>TimerFires\<close>), which covers every schedule the JavaScript runtime can produce.
\<close>

datatype js_error = Error string

datatype 'm settlement = Resolved nat 'm | Rejected nat js_error

record 'm MessageQueue =
  messages :: "'m list"
  waitingResolvers :: "nat list"
  defaultTimeout :: nat
  closed :: bool
  allocated :: nat

definition MessageQueue_new :: "nat \<Rightarrow> 'm MessageQueue" where
  "MessageQueue_new timeoutMs =
     \<lparr>messages = [], waitingResolvers = [], defaultTimeout = timeoutMs,
      closed = False, allocated = 0\<rparr>"

definition enqueue :: "'m \<Rightarrow> 'm MessageQueue \<Rightarrow> 'm MessageQueue \<times> 'm settlement list" where
  "enqueue message q =
     (if closed q then (q, [])
      else (case waitingResolvers q of
              resolver # rest \<Rightarrow> (q\<lparr>waitingResolvers := rest\<rparr>, [Resolved resolver message])
            | [] \<Rightarrow> (q\<lparr>messages := messages q @ [message]\<rparr>, [])))"

definition dequeue :: "'m MessageQueue \<Rightarrow> 'm MessageQueue \<times> 'm settlement list" where
  "dequeue q =
     (let p = allocated q; q1 = q\<lparr>allocated := Suc p\<rparr> in
      if closed q then (q1, [Rejected p (Error ''Queue is closed'')])
      else (case messages q of
              m # rest \<Rightarrow> (q1\<lparr>messages := rest\<rparr>, [Resolved p m])
            | [] \<Rightarrow> (q1\<lparr>waitingResolvers := waitingResolvers q @ [p]\<rparr>, [])))"

text \<open>The body of the \<open>setTimeout\<close> callback installed by \<open>dequeue\<close>.\<close>

definition timerFires :: "nat \<Rightarrow> 'm MessageQueue \<Rightarrow> 'm MessageQueue \<times> 'm settlement list" where
  "timerFires resolver q =
     (if resolver \<in> set (waitingResolvers q)
      then (q\<lparr>waitingResolvers := remove1 resolver (waitingResolvers q)\<rparr>,
            [Rejected resolver (Error ''Queue timeout'')])
      else (q, []))"

definition close :: "'m MessageQueue \<Rightarrow> 'm MessageQueue \<times> 'm settlement list" where
  "close q =
     (q\<lparr>closed := True, waitingResolvers := [], messages := []\<rparr>,
      map (\<lambda>resolver. Rejected resolver (Error ''Queue closed'')) (waitingResolvers q))"

datatype 'm queue_event = Enqueue 'm | Dequeue | TimerFires nat | Close

fun step :: "'m queue_event \<Rightarrow> 'm MessageQueue \<Rightarrow> 'm MessageQueue \<times> 'm settlement list" where
  "step (Enqueue m) q = enqueue m q"
| "step Dequeue q = dequeue q"
| "step (TimerFires r) q = timerFires r q"
| "step Close q = close q"

fun run :: "'m MessageQueue \<Rightarrow> 'm queue_event list \<Rightarrow> 'm MessageQueue \<times> 'm settlement list" where
  "run q [] = (q, [])"
| "run q (e # es) =
     (case step e q of (q1, out1) \<Rightarrow>
        (case run q1 es of (q2, out2) \<Rightarrow> (q2, out1 @ out2)))"

text \<open>Every parked resolver was created by an earlier \<open>dequeue\<close>, and is parked once.\<close>

definition queue_wf :: "'m MessageQueue \<Rightarrow> bool" where
  "queue_wf q = (distinct (waitingResolvers q) \<and> list_all (\<lambda>r. r < allocated q) (waitingResolvers q))"

text \<open>A resolver that exists and is no longer parked.\<close>

definition dropped :: "nat \<Rightarrow> 'm MessageQueue \<Rightarrow> bool" where
  "dropped r q = (r < allocated q \<and> r \<notin> set (waitingResolvers q))"

section \<open>JSON values and JavaScript strings\<close>

text \<open>
  Values that travel as parsed JSON are kept as a datatype; \<open>undefined\<close> (an absent
  field) is \<open>None\<close> of an option type.  JavaScript truthiness is \<open>truthy\<close>.  Numbers
  are integers here: the values the modelled code inspects are token counts and indexes.
  Strings are lists of 8-bit characters, and case conversion acts on the ASCII letters.
\<close>

datatype json =
    JNull | JBool bool | JNum int | JStr string | JArr "json list" | JObj "(string \<times> json) list"

fun truthy :: "json \<Rightarrow> bool" where
  "truthy JNull = False"
| "truthy (JBool b) = b"
| "truthy (JNum n) = (n \<noteq> 0)"
| "truthy (JStr s) = (s \<noteq> [])"
| "truthy (JArr xs) = True"
| "truthy (JObj kvs) = True"

definition truthyString :: "string option \<Rightarrow> bool" where
  "truthyString v = (case v of None \<Rightarrow> False | Some s \<Rightarrow> s \<noteq> [])"

definition toUpperCase_char :: "char \<Rightarrow> char" where
  "toUpperCase_char c =
     (let n = (of_char c :: nat) in if 97 \<le> n \<and> n \<le> 122 then char_of (n - 32) else c)"

definition toUpperCase :: "string \<Rightarrow> string" where
  "toUpperCase s = map toUpperCase_char s"

definition toLowerCase_char :: "char \<Rightarrow> char" where
  "toLowerCase_char c =
     (let n = (of_char c :: nat) in if 65 \<le> n \<and> n \<le> 90 then char_of (n + 32) else c)"

definition toLowerCase :: "string \<Rightarrow> string" where
  "toLowerCase s = map toLowerCase_char s"

section \<open>Format converter: Gemini data (src/core/FormatConverter.js)\<close>

text \<open>
  One record serves for the parts of a Gemini \<open>contents\<close> entry, in requests and in
  responses.  \<open>thought\<close> holds the test \<open>part.thought === true\<close>; the other fields are
  \<open>None\<close> when the key is absent.
\<close>

record inlineData =
  data :: string
  mimeType :: string

record functionCall =
  args :: "json option"
  name :: string

text \<open>
  The \<open>content\<close> of an OpenAI message: a string, an array of typed parts, or anything
  else (absent, \<open>null\<close>, an object).  A part of type \<open>text\<close> carries \<open>part.text\<close>,
  a part of type \<open>image_url\<close> with an \<open>image_url\<close> object carries its \<open>url\<close>; all
  other parts are skipped by the converter.
\<close>

datatype contentPart = TextPart "string option" | ImageUrlPart string | OtherPart

datatype messageContent =
    ContentString string
  | ContentArray "contentPart list"
  | ContentOther "json option"

text \<open>
  The \<open>response\<close> of a \<open>functionResponse\<close>: the parsed JSON of a string content, the
  wrapper \<open>{ result: content }\<close> when the string is not JSON, or a non-string content
  taken as it is.
\<close>

datatype responseContent =
    ParsedContent json
  | ResultWrapper string
  | RawContent messageContent

record functionResponse =
  fr_name :: string
  response :: responseContent

record part =
  thought :: bool
  part_text :: "string option"
  inlineData :: "inlineData option"
  functionCall :: "functionCall option"
  functionResponse :: "functionResponse option"
  thoughtSignature :: "string option"

definition emptyPart :: part where
  "emptyPart = \<lparr>thought = False, part_text = None, inlineData = None, functionCall = None,
                 functionResponse = None, thoughtSignature = None\<rparr>"

record content =
  parts :: "part list option"
  role :: string

record tokensDetail =
  modality :: "string option"
  tokenCount :: "int option"

record usageMetadata =
  promptTokenCount :: "int option"
  toolUsePromptTokenCount :: "int option"
  candidatesTokenCount :: "int option"
  thoughtsTokenCount :: "int option"
  totalTokenCount :: "int option"
  candidatesTokensDetails :: "tokensDetail option list option"

record candidate =
  cand_content :: "content option"
  finishReason :: "string option"

record promptFeedback =
  blockReason :: "string option"

record googleResponse =
  candidates :: "candidate list option"
  promptFeedback :: "promptFeedback option"
  usageMetadata :: "usageMetadata option"

subsection \<open>OpenAI response shapes\<close>

record completionTokensDetails =
  image_tokens :: int
  output_text_tokens :: int
  reasoning_tokens :: int

record promptTokensDetails =
  text_tokens :: int
  tool_tokens :: int

record usage =
  completion_tokens :: int
  completion_tokens_details :: "completionTokensDetails option"
  prompt_tokens :: int
  prompt_tokens_details :: "promptTokensDetails option"
  total_tokens :: int

record toolCallObj =
  function_arguments :: string
  function_name :: string
  call_id :: string
  call_index :: nat
  call_type :: string

record delta =
  delta_content :: "string option"
  delta_reasoning_content :: "string option"
  delta_role :: "string option"
  delta_tool_calls :: "toolCallObj list option"

definition emptyDelta :: delta where
  "emptyDelta = \<lparr>delta_content = None, delta_reasoning_content = None, delta_role = None,
                  delta_tool_calls = None\<rparr>"

record streamChoice =
  choice_delta :: delta
  finish_reason :: "string option"
  choice_index :: nat

record streamChunk =
  choices :: "streamChoice list"
  created :: "nat option"
  chunk_id :: string
  model :: string
  object :: string
  chunk_usage :: "usage option"

text \<open>
  The string returned by the streaming converter is a concatenation of server-sent-event
  lines \<open>data: <JSON>\n\n\<close>; it is kept as the list of the objects that are serialised,
  or the \<open>[DONE]\<close> marker.
\<close>

datatype sse = Data streamChunk | Done

record assistantMessage =
  msg_content :: string
  msg_role :: string
  msg_reasoning_content :: "string option"
  msg_tool_calls :: "toolCallObj list option"

record completionChoice =
  cc_finish_reason :: string
  cc_index :: nat
  cc_message :: assistantMessage

record chatCompletion =
  cc_choices :: "completionChoice list"
  cc_created :: nat
  cc_id :: string
  cc_model :: string
  cc_object :: string
  cc_usage :: usage

subsection \<open>Token accounting and finish reasons\<close>

text \<open>\<open>v || 0\<close> on an optional number.\<close>

definition orZero :: "int option \<Rightarrow> int" where
  "orZero v = (case v of None \<Rightarrow> 0 | Some n \<Rightarrow> n)"

definition addImageTokens :: "int \<Rightarrow> tokensDetail option \<Rightarrow> int" where
  "addImageTokens completionImageTokens d =
     (case d of
        None \<Rightarrow> completionImageTokens
      | Some d' \<Rightarrow>
          if modality d' = Some ''IMAGE'' then completionImageTokens + orZero (tokenCount d')
          else completionImageTokens)"

definition parseUsage :: "googleResponse \<Rightarrow> usage" where
  "parseUsage googleResponse =
     (let u = usageMetadata googleResponse;
          inputTokens = orZero (Option.bind u promptTokenCount);
          toolPromptTokens = orZero (Option.bind u toolUsePromptTokenCount);
          completionTextTokens = orZero (Option.bind u candidatesTokenCount);
          reasoningTokens = orZero (Option.bind u thoughtsTokenCount);
          completionImageTokens =
            (case Option.bind u candidatesTokensDetails of
               None \<Rightarrow> 0
             | Some ds \<Rightarrow> foldl addImageTokens 0 ds);
          promptTokens = inputTokens + toolPromptTokens;
          totalCompletionTokens = completionTextTokens + reasoningTokens;
          totalTokens = orZero (Option.bind u totalTokenCount)
      in \<lparr>completion_tokens = totalCompletionTokens,
          completion_tokens_details =
            Some \<lparr>image_tokens = completionImageTokens,
                  output_text_tokens = completionTextTokens,
                  reasoning_tokens = reasoningTokens\<rparr>,
          prompt_tokens = promptTokens,
          prompt_tokens_details =
            Some \<lparr>text_tokens = inputTokens, tool_tokens = toolPromptTokens\<rparr>,
          total_tokens = totalTokens\<rparr>)"

text \<open>
  The finish-reason table.  Finish reasons are Gemini's enumeration names; property names
  that a JavaScript object literal inherits from its prototype are not among them.
\<close>

definition reasonMap :: "string \<Rightarrow> string option" where
  "reasonMap k =
     (if k = ''max_tokens'' then Some ''length''
      else if k = ''other'' then Some ''stop''
      else if k = ''recitation'' then Some ''stop''
      else if k = ''safety'' then Some ''content_filter''
      else if k = ''stop'' then Some ''stop''
      else None)"

definition mapFinishReason :: "string option \<Rightarrow> string" where
  "mapFinishReason geminiReason =
     (let r = (if truthyString geminiReason then the geminiReason else ''stop'')
      in case reasonMap (toLowerCase r) of
           None \<Rightarrow> ''stop''
         | Some v \<Rightarrow> if v \<noteq> [] then v else ''stop'')"

subsection \<open>The converter's environment\<close>

text \<open>
  \<open>JSON.parse\<close>, \<open>JSON.stringify\<close>, the clock and the random request ids are parameters
  of the response conversions.
  \<open>parseChunk\<close> is \<open>JSON.parse\<close> on a response chunk, read as a Gemini response;
  a parsed value that is not an object has none of the fields.  \<open>requestIds k\<close> is
  the result of the k-th call of \<open>_generateRequestId\<close> within one conversion, and
  \<open>nowSeconds\<close> the value of \<open>Math.floor(Date.now() / 1000)\<close>.
\<close>

datatype parsedChunk = SyntaxError | ParsedNull | ParsedResponse googleResponse

record converterEnv =
  parseChunk :: "string \<Rightarrow> parsedChunk"
  JSON_stringify :: "json \<Rightarrow> string"
  nowSeconds :: nat
  requestIds :: "nat \<Rightarrow> string"

datatype js_exception = TypeError

text \<open>\<open>funcCall.args || {}\<close>\<close>

definition argsOrEmpty :: "json option \<Rightarrow> json" where
  "argsOrEmpty a = (case a of None \<Rightarrow> JObj [] | Some j \<Rightarrow> if truthy j then j else JObj [])"

definition firstCandidate :: "googleResponse \<Rightarrow> candidate option" where
  "firstCandidate googleResponse =
     (case candidates googleResponse of
        None \<Rightarrow> None
      | Some [] \<Rightarrow> None
      | Some (c # cs) \<Rightarrow> Some c)"

definition candidateParts :: "candidate \<Rightarrow> part list" where
  "candidateParts c =
     (case cand_content c of
        None \<Rightarrow> []
      | Some ct \<Rightarrow> (case parts ct of None \<Rightarrow> [] | Some ps \<Rightarrow> ps))"

definition imageMarkdown :: "inlineData \<Rightarrow> string" where
  "imageMarkdown img =
     ''![Generated Image](data:'' @ mimeType img @ '';base64,'' @ data img @ '')''"

subsection \<open>Streaming conversion\<close>

record streamState =
  state_id :: "string option"
  state_created :: "nat option"
  state_usage :: "usage option"
  toolCallIndex :: "nat option"
  hasFunctionCall :: bool
  roleSent :: bool

text \<open>The object \<open>{}\<close>.\<close>

definition emptyStreamState :: streamState where
  "emptyStreamState =
     \<lparr>state_id = None, state_created = None, state_usage = None, toolCallIndex = None,
      hasFunctionCall = False, roleSent = False\<rparr>"

definition isSpace :: "char \<Rightarrow> bool" where
  "isSpace c = ((of_char c :: nat) \<in> {9, 10, 11, 12, 13, 32})"

definition trim :: "string \<Rightarrow> string" where
  "trim s = rev (dropWhile isSpace (rev (dropWhile isSpace s)))"

definition startsWith :: "string \<Rightarrow> string \<Rightarrow> bool" where
  "startsWith s p = (take (length p) s = p)"

definition mkChunk ::
  "delta \<Rightarrow> string option \<Rightarrow> nat option \<Rightarrow> string \<Rightarrow> string \<Rightarrow> usage option \<Rightarrow> streamChunk" where
  "mkChunk d fr created' streamId modelName u =
     \<lparr>choices = [\<lparr>choice_delta = d, finish_reason = fr, choice_index = 0\<rparr>],
      created = created', chunk_id = streamId, model = modelName,
      object = ''chat.completion.chunk'', chunk_usage = u\<rparr>"

text \<open>
  One iteration of the loop over \<open>candidate.content.parts\<close>.  The loop state is the
  stream state, the number of request ids drawn so far, and \<open>chunksToSend\<close>.
\<close>

definition streamPart ::
  "converterEnv \<Rightarrow> string \<Rightarrow> string \<Rightarrow> nat option \<Rightarrow> streamState \<times> nat \<times> sse list \<Rightarrow> part
     \<Rightarrow> streamState \<times> nat \<times> sse list" where
  "streamPart env modelName streamId created' acc p =
     (case acc of (st, k, chunksToSend) \<Rightarrow>
        (let (d, hasContent, st1, k1) =
           (if thought p then
              (if truthyString (part_text p)
               then (emptyDelta\<lparr>delta_reasoning_content := part_text p\<rparr>, True, st, k)
               else (emptyDelta, False, st, k))
            else if truthyString (part_text p) then
              (emptyDelta\<lparr>delta_content := part_text p\<rparr>, True, st, k)
            else
              (case inlineData p of
                 Some img \<Rightarrow>
                   (emptyDelta\<lparr>delta_content := Some (imageMarkdown img)\<rparr>, True, st, k)
               | None \<Rightarrow>
                   (case functionCall p of
                      Some funcCall \<Rightarrow>
                        (let toolCallId = ''call_'' @ requestIds env k;
                             toolCallIndex' = (case toolCallIndex st of None \<Rightarrow> 0 | Some i \<Rightarrow> i);
                             toolCall =
                               \<lparr>function_arguments = JSON_stringify env (argsOrEmpty (args funcCall)),
                                function_name = name funcCall,
                                call_id = toolCallId,
                                call_index = toolCallIndex',
                                call_type = ''function''\<rparr>
                         in (emptyDelta\<lparr>delta_tool_calls := Some [toolCall]\<rparr>, True,
                             st\<lparr>toolCallIndex := Some (toolCallIndex' + 1), hasFunctionCall := True\<rparr>,
                             Suc k))
                    | None \<Rightarrow> (emptyDelta, False, st, k))))
         in if hasContent then
              (let d' = (if roleSent st1 then d else d\<lparr>delta_role := Some ''assistant''\<rparr>);
                   st2 = (if roleSent st1 then st1 else st1\<lparr>roleSent := True\<rparr>)
               in (st2, k1, chunksToSend @ [Data (mkChunk d' None created' streamId modelName None)]))
            else (st1, k1, chunksToSend)))"

definition blockedText :: "promptFeedback \<Rightarrow> string" where
  "blockedText fb =
     ''[ProxySystem Error] Request blocked due to safety settings. Finish Reason: ''
       @ (case blockReason fb of None \<Rightarrow> ''undefined'' | Some r \<Rightarrow> r)"

definition translateResponse ::
  "converterEnv \<Rightarrow> googleResponse \<Rightarrow> string \<Rightarrow> streamState \<Rightarrow> nat \<Rightarrow> streamState \<times> sse list option" where
  "translateResponse env googleResponse modelName st0 k0 =
     (let streamId = (case state_id st0 of None \<Rightarrow> [] | Some i \<Rightarrow> i);
          created' = state_created st0;
          st1 = (case usageMetadata googleResponse of
                   None \<Rightarrow> st0
                 | Some u \<Rightarrow> st0\<lparr>state_usage := Some (parseUsage googleResponse)\<rparr>)
      in case firstCandidate googleResponse of
           None \<Rightarrow>
             (case promptFeedback googleResponse of
                Some fb \<Rightarrow>
                  (st1, Some [Data (mkChunk (emptyDelta\<lparr>delta_content := Some (blockedText fb)\<rparr>)
                                      (Some ''stop'') created' streamId modelName None)])
              | None \<Rightarrow> (st1, None))
         | Some c \<Rightarrow>
             (case foldl (streamPart env modelName streamId created') (st1, k0, []) (candidateParts c) of
                (st2, k2, chunksToSend) \<Rightarrow>
                  (let chunksToSend' =
                     (if truthyString (finishReason c) then
                        chunksToSend @
                          [Data (mkChunk emptyDelta
                                   (Some (if hasFunctionCall st2 then ''tool_calls''
                                          else mapFinishReason (finishReason c)))
                                   created' streamId modelName (state_usage st2))]
                      else chunksToSend)
                   in (st2, if chunksToSend' = [] then None else Some chunksToSend'))))"

definition jsonString :: "string \<Rightarrow> string" where
  "jsonString googleChunk =
     (if startsWith googleChunk ''data: '' then trim (drop 6 googleChunk) else googleChunk)"

text \<open>
  \<open>translateGoogleToOpenAIStream(googleChunk, modelName, streamState)\<close>.  The caller's state
  object is returned updated; with no state object (\<open>None\<close>) the function works on a fresh
  \<open>{}\<close> that the caller never sees.  The result is an exception, \<open>null\<close> (\<open>None\<close>) or
  the emitted lines.
\<close>

definition translateGoogleToOpenAIStream ::
  "converterEnv \<Rightarrow> string \<Rightarrow> string \<Rightarrow> streamState option
     \<Rightarrow> streamState option \<times> (js_exception + sse list option)" where
  "translateGoogleToOpenAIStream env googleChunk modelName streamState =
     (let st = (case streamState of None \<Rightarrow> emptyStreamState | Some s \<Rightarrow> s);
          give = (\<lambda>st'. map_option (\<lambda>_. st') streamState)
      in if googleChunk = [] \<or> trim googleChunk = [] then (give st, Inr None)
         else
           (if jsonString googleChunk = ''[DONE]'' then (give st, Inr (Some [Done]))
               else
                 (case parseChunk env (jsonString googleChunk) of
                    SyntaxError \<Rightarrow> (give st, Inr None)
                  | parsed \<Rightarrow>
                      (let fresh = \<not> truthyString (state_id st);
                           st0 = (if fresh
                                  then st\<lparr>state_id := Some (''chatcmpl-'' @ requestIds env 0),
                                          state_created := Some (nowSeconds env)\<rparr>
                                  else st);
                           k0 = (if fresh then 1 else 0 :: nat)
                       in case parsed of
                            ParsedResponse googleResponse \<Rightarrow>
                              (case translateResponse env googleResponse modelName st0 k0 of
                                 (st', r) \<Rightarrow> (give st', Inr r))
                          | _ \<Rightarrow> (give st0, Inl TypeError)))))"

text \<open>A stream: the chunks of one response, converted in order with one state object.\<close>

fun translateStream ::
  "converterEnv list \<Rightarrow> string list \<Rightarrow> string \<Rightarrow> streamState
     \<Rightarrow> streamState \<times> (js_exception + sse list option) list" where
  "translateStream (env # envs) (googleChunk # chunks) modelName st =
     (case translateGoogleToOpenAIStream env googleChunk modelName (Some st) of
        (st', r) \<Rightarrow>
          (case translateStream envs chunks modelName (case st' of None \<Rightarrow> st | Some s \<Rightarrow> s) of
             (st'', rs) \<Rightarrow> (st'', r # rs)))"
| "translateStream envs chunks modelName st = (st, [])"

text \<open>The \<open>index\<close> values of the \<open>tool_calls\<close> entries of emitted lines, in order.\<close>

definition sseToolIndexes :: "sse \<Rightarrow> nat list" where
  "sseToolIndexes e =
     (case e of
        Done \<Rightarrow> []
      | Data c \<Rightarrow>
          concat (map (\<lambda>ch. case delta_tool_calls (choice_delta ch) of
                               None \<Rightarrow> []
                             | Some tcs \<Rightarrow> map call_index tcs)
                      (choices c)))"

definition emittedToolIndexes :: "sse list \<Rightarrow> nat list" where
  "emittedToolIndexes es = concat (map sseToolIndexes es)"

definition resultLines :: "js_exception + sse list option \<Rightarrow> sse list" where
  "resultLines r = (case r of Inr (Some es) \<Rightarrow> es | _ \<Rightarrow> [])"

definition streamToolIndexes :: "(js_exception + sse list option) list \<Rightarrow> nat list" where
  "streamToolIndexes rs = emittedToolIndexes (concat (map resultLines rs))"

subsection \<open>Non-streaming conversion\<close>

definition nonStreamPart ::
  "converterEnv \<Rightarrow> string \<times> string \<times> toolCallObj list \<Rightarrow> part \<Rightarrow> string \<times> string \<times> toolCallObj list" where
  "nonStreamPart env acc p =
     (case acc of (content', reasoning_content, tool_calls) \<Rightarrow>
        (if thought p then
           (content',
            reasoning_content @ (if truthyString (part_text p) then the (part_text p) else []),
            tool_calls)
         else if truthyString (part_text p) then
           (content' @ the (part_text p), reasoning_content, tool_calls)
         else
           (case inlineData p of
              Some img \<Rightarrow> (content' @ imageMarkdown img, reasoning_content, tool_calls)
            | None \<Rightarrow>
                (case functionCall p of
                   Some funcCall \<Rightarrow>
                     (content', reasoning_content,
                      tool_calls @
                        [\<lparr>function_arguments = JSON_stringify env (argsOrEmpty (args funcCall)),
                          function_name = name funcCall,
                          call_id = ''call_'' @ requestIds env (length tool_calls),
                          call_index = length tool_calls,
                          call_type = ''function''\<rparr>])
                 | None \<Rightarrow> acc))))"

text \<open>
  \<open>convertGoogleToOpenAINonStream(googleResponse, modelName)\<close>.  The argument \<open>None\<close> is
  \<open>null\<close> or \<open>undefined\<close>, on which the first property access raises.
\<close>

definition convertGoogleToOpenAINonStream ::
  "converterEnv \<Rightarrow> googleResponse option \<Rightarrow> string \<Rightarrow> js_exception + chatCompletion" where
  "convertGoogleToOpenAINonStream env googleResponse modelName =
     (case googleResponse of
        None \<Rightarrow> Inl TypeError
      | Some g \<Rightarrow>
          (case firstCandidate g of
             None \<Rightarrow>
               Inr \<lparr>cc_choices =
                      [\<lparr>cc_finish_reason = ''stop'', cc_index = 0,
                        cc_message = \<lparr>msg_content = [], msg_role = ''assistant'',
                                      msg_reasoning_content = None, msg_tool_calls = None\<rparr>\<rparr>],
                    cc_created = nowSeconds env,
                    cc_id = ''chatcmpl-'' @ requestIds env 0,
                    cc_model = modelName,
                    cc_object = ''chat.completion'',
                    cc_usage = \<lparr>completion_tokens = 0, completion_tokens_details = None,
                                prompt_tokens = 0, prompt_tokens_details = None,
                                total_tokens = 0\<rparr>\<rparr>
           | Some c \<Rightarrow>
               (case foldl (nonStreamPart env) ([], [], []) (candidateParts c) of
                  (content', reasoning_content, tool_calls) \<Rightarrow>
                    Inr \<lparr>cc_choices =
                           [\<lparr>cc_finish_reason =
                               (if tool_calls \<noteq> [] then ''tool_calls''
                                else mapFinishReason (finishReason c)),
                             cc_index = 0,
                             cc_message =
                               \<lparr>msg_content = content', msg_role = ''assistant'',
                                msg_reasoning_content =
                                  (if reasoning_content \<noteq> [] then Some reasoning_content else None),
                                msg_tool_calls =
                                  (if tool_calls \<noteq> [] then Some tool_calls else None)\<rparr>\<rparr>],
                         cc_created = nowSeconds env,
                         cc_id = ''chatcmpl-'' @ requestIds env (length tool_calls),
                         cc_model = modelName,
                         cc_object = ''chat.completion'',
                         cc_usage = parseUsage g\<rparr>)))"

subsection \<open>Sanitising native Gemini requests\<close>

text \<open>
  A Gemini request body.  Only \<open>contents\<close> and \<open>systemInstruction\<close> are named; every
  other field of a body is carried along by the record's extension.  \<open>contents\<close> is
  \<open>None\<close> when the field is absent or not an array, and so is \<open>parts\<close> of an entry.
\<close>

record geminiBody =
  contents :: "content list option"
  systemInstruction :: "content option"

definition DUMMY_THOUGHT_SIGNATURE :: string where
  "DUMMY_THOUGHT_SIGNATURE = ''context_engineering_is_the_way_to_go''"

text \<open>\<open>part.functionCall && !part.thoughtSignature\<close>\<close>

definition lacksSignature :: "part \<Rightarrow> bool" where
  "lacksSignature p = (functionCall p \<noteq> None \<and> \<not> truthyString (thoughtSignature p))"

text \<open>The inner loop over \<open>content.parts\<close>, with its flag \<open>signatureAdded\<close>.\<close>

fun ensureParts :: "bool \<Rightarrow> part list \<Rightarrow> part list" where
  "ensureParts signatureAdded [] = []"
| "ensureParts signatureAdded (p # ps) =
     (if lacksSignature p then
        (if \<not> signatureAdded
         then p\<lparr>thoughtSignature := Some DUMMY_THOUGHT_SIGNATURE\<rparr> # ensureParts True ps
         else p # ensureParts signatureAdded ps)
      else p # ensureParts signatureAdded ps)"

definition ensureContent :: "content \<Rightarrow> content" where
  "ensureContent c =
     (case parts c of None \<Rightarrow> c | Some ps \<Rightarrow> c\<lparr>parts := Some (ensureParts False ps)\<rparr>)"

definition ensureThoughtSignature :: "'a geminiBody_scheme option \<Rightarrow> 'a geminiBody_scheme option" where
  "ensureThoughtSignature geminiBody =
     (case geminiBody of
        None \<Rightarrow> None
      | Some b \<Rightarrow>
          (case contents b of
             None \<Rightarrow> Some b
           | Some cs \<Rightarrow> Some (b\<lparr>contents := Some (map ensureContent cs)\<rparr>)))"

section \<open>Format converter: OpenAI requests (src/core/FormatConverter.js)\<close>

text \<open>
  \<open>translateOpenAIToGoogle\<close> up to the point where \<open>contents\<close> and
  \<open>systemInstruction\<close> of the Gemini request are fixed.  The rest of the function adds
  \<open>generationConfig\<close>, \<open>tools\<close>, \<open>toolConfig\<close> and \<open>safetySettings\<close> to the request
  and does not touch these two fields.  \<open>JSON.parse\<close>, the image download, the MIME
  lookup and the string conversion of a non-string content are parameters; a download
  that fails for any reason is \<open>None\<close>.  A tool call's \<open>arguments\<close> are a string, or
  any other value.
\<close>

datatype toolArguments = ArgumentsString string | ArgumentsValue "json option"

record toolFunction =
  tf_arguments :: toolArguments
  tf_name :: string

record toolCall =
  tc_type :: string
  tc_function :: "toolFunction option"

record message =
  m_role :: string
  m_content :: messageContent
  m_name :: "string option"
  m_tool_calls :: "toolCall list option"

record openaiBody =
  body_messages :: "message list"

record requestEnv =
  JSON_parse :: "string \<Rightarrow> json option"
  axiosGet :: "string \<Rightarrow> (string \<times> string option) option"
  mimeLookup :: "string \<Rightarrow> string option"
  contentToString :: "messageContent \<Rightarrow> string"

text \<open>
  \<open>splitFirst s p\<close> cuts \<open>s\<close> at the first occurrence of \<open>p\<close>.  With it, the
  regular expression \<open>^data:(image\/.*?);base64,(.*)$\<close>: the dot matches no line
  terminator, so a match needs the text after \<open>data:\<close> free of them, and the lazy
  group ends at the first \<open>;base64,\<close>.
\<close>

fun splitFirst :: "string \<Rightarrow> string \<Rightarrow> (string \<times> string) option" where
  "splitFirst [] p = (if p = [] then Some ([], []) else None)"
| "splitFirst (c # s) p =
     (if startsWith (c # s) p then Some ([], drop (length p) (c # s))
      else map_option (\<lambda>(a, b). (c # a, b)) (splitFirst s p))"

definition isLineTerminator :: "char \<Rightarrow> bool" where
  "isLineTerminator c = ((of_char c :: nat) \<in> {10, 13})"

definition matchDataUrl :: "string \<Rightarrow> (string \<times> string) option" where
  "matchDataUrl dataUrl =
     (if startsWith dataUrl ''data:image/'' \<and> \<not> list_ex isLineTerminator (drop 5 dataUrl)
      then (case splitFirst (drop 11 dataUrl) '';base64,'' of
              None \<Rightarrow> None
            | Some (subtype, d) \<Rightarrow> Some (''image/'' @ subtype, d))
      else None)"

text \<open>\<open>/^https?:\/\//\<close>\<close>

definition isHttpUrl :: "string \<Rightarrow> bool" where
  "isHttpUrl dataUrl = (startsWith dataUrl ''http://'' \<or> startsWith dataUrl ''https://'')"

definition imageUrlParts :: "requestEnv \<Rightarrow> string \<Rightarrow> part list" where
  "imageUrlParts env dataUrl =
     (case matchDataUrl dataUrl of
        Some (mime, d) \<Rightarrow> [emptyPart\<lparr>inlineData := Some \<lparr>data = d, mimeType = mime\<rparr>\<rparr>]
      | None \<Rightarrow>
          if isHttpUrl dataUrl then
            (case axiosGet env dataUrl of
               Some (base64Data, contentType) \<Rightarrow>
                 (let mimeType' =
                    (if \<not> truthyString contentType \<or> contentType = Some ''application/octet-stream''
                     then (if truthyString (mimeLookup env dataUrl) then the (mimeLookup env dataUrl)
                           else ''image/jpeg'')
                     else the contentType)
                  in [emptyPart\<lparr>inlineData := Some \<lparr>data = base64Data, mimeType = mimeType'\<rparr>\<rparr>])
             | None \<Rightarrow>
                 [emptyPart\<lparr>part_text :=
                    Some (''[System Note: Failed to load image from '' @ dataUrl @ '']'')\<rparr>])
          else [])"

definition contentPartParts :: "requestEnv \<Rightarrow> contentPart \<Rightarrow> part list" where
  "contentPartParts env p =
     (case p of
        TextPart t \<Rightarrow> [emptyPart\<lparr>part_text := t\<rparr>]
      | ImageUrlPart dataUrl \<Rightarrow> imageUrlParts env dataUrl
      | OtherPart \<Rightarrow> [])"

text \<open>The loop over \<open>message.tool_calls\<close>, with its flag \<open>signatureAttachedToCall\<close>.\<close>

fun toolCallParts :: "requestEnv \<Rightarrow> bool \<Rightarrow> toolCall list \<Rightarrow> part list" where
  "toolCallParts env signatureAttachedToCall [] = []"
| "toolCallParts env signatureAttachedToCall (toolCall # rest) =
     (case (if tc_type toolCall = ''function'' then tc_function toolCall else None) of
        Some f \<Rightarrow>
          (let args' =
                 (case tf_arguments f of
                    ArgumentsString s \<Rightarrow>
                      (case JSON_parse env s of Some j \<Rightarrow> Some j | None \<Rightarrow> Some (JObj []))
                  | ArgumentsValue v \<Rightarrow> v);
               functionCallPart = emptyPart\<lparr>functionCall := Some \<lparr>args = args', name = tf_name f\<rparr>\<rparr>
           in (if \<not> signatureAttachedToCall
               then functionCallPart\<lparr>thoughtSignature := Some DUMMY_THOUGHT_SIGNATURE\<rparr>
               else functionCallPart) # toolCallParts env True rest)
      | None \<Rightarrow> toolCallParts env signatureAttachedToCall rest)"

text \<open>\<open>googleParts\<close> of a message that is not a tool message.\<close>

definition messageParts :: "requestEnv \<Rightarrow> message \<Rightarrow> part list" where
  "messageParts env message =
     (case (if m_role message = ''assistant'' then m_tool_calls message else None) of
        Some tcs \<Rightarrow> toolCallParts env False tcs
      | None \<Rightarrow> [])
     @ (case m_content message of
          ContentString s \<Rightarrow> (if s \<noteq> [] then [emptyPart\<lparr>part_text := Some s\<rparr>] else [])
        | ContentArray ps \<Rightarrow> concat (map (contentPartParts env) ps)
        | ContentOther j \<Rightarrow> [])"

definition functionResponsePart :: "requestEnv \<Rightarrow> message \<Rightarrow> part" where
  "functionResponsePart env message =
     (let responseContent =
            (case m_content message of
               ContentString s \<Rightarrow>
                 (case JSON_parse env s of Some j \<Rightarrow> ParsedContent j | None \<Rightarrow> ResultWrapper s)
             | c \<Rightarrow> RawContent c);
          functionName =
            (if truthyString (m_name message) then the (m_name message) else ''unknown_function'')
      in emptyPart\<lparr>functionResponse := Some \<lparr>fr_name = functionName, response = responseContent\<rparr>\<rparr>)"

definition flushToolParts :: "part list \<times> content list \<Rightarrow> part list \<times> content list" where
  "flushToolParts st =
     (case st of (pendingToolParts, googleContents) \<Rightarrow>
        if pendingToolParts \<noteq> []
        then ([], googleContents @ [\<lparr>parts = Some pendingToolParts, role = ''user''\<rparr>])
        else st)"

text \<open>The entry pushed for a non-tool message: none when \<open>googleParts\<close> is empty.\<close>

definition messageEntries :: "requestEnv \<Rightarrow> message \<Rightarrow> content list" where
  "messageEntries env message =
     (let googleParts = messageParts env message
      in if googleParts \<noteq> []
         then [\<lparr>parts = Some googleParts,
                role = (if m_role message = ''assistant'' then ''model'' else ''user'')\<rparr>]
         else [])"

text \<open>
  The loop over \<open>conversationMessages\<close>; its state is \<open>pendingToolParts\<close> and
  \<open>googleContents\<close>.
\<close>

fun convertMessages ::
  "requestEnv \<Rightarrow> message list \<Rightarrow> part list \<times> content list \<Rightarrow> part list \<times> content list" where
  "convertMessages env [] st = st"
| "convertMessages env (message # rest) st =
     (if m_role message = ''tool'' then
        (case st of (pendingToolParts, googleContents) \<Rightarrow>
           convertMessages env rest
             (pendingToolParts @ [functionResponsePart env message], googleContents))
      else
        (case flushToolParts st of (pendingToolParts, googleContents) \<Rightarrow>
           convertMessages env rest
             (pendingToolParts, googleContents @ messageEntries env message)))"

fun joinWith :: "string \<Rightarrow> string list \<Rightarrow> string" where
  "joinWith sep [] = []"
| "joinWith sep [x] = x"
| "joinWith sep (x # y # ys) = x @ sep @ joinWith sep (y # ys)"

definition systemText :: "requestEnv \<Rightarrow> message \<Rightarrow> string" where
  "systemText env msg = (case m_content msg of ContentString s \<Rightarrow> s | c \<Rightarrow> contentToString env c)"

definition translateOpenAIToGoogle :: "requestEnv \<Rightarrow> openaiBody \<Rightarrow> geminiBody" where
  "translateOpenAIToGoogle env openaiBody =
     (let systemMessages = filter (\<lambda>msg. m_role msg = ''system'') (body_messages openaiBody);
          systemInstruction' =
            (if systemMessages \<noteq> []
             then Some \<lparr>parts = Some [emptyPart\<lparr>part_text :=
                                         Some (joinWith [CHR 0x0A] (map (systemText env) systemMessages))\<rparr>],
                        role = ''system''\<rparr>
             else None);
          conversationMessages = filter (\<lambda>msg. m_role msg \<noteq> ''system'') (body_messages openaiBody);
          googleContents = snd (flushToolParts (convertMessages env conversationMessages ([], [])))
      in \<lparr>contents = Some googleContents,
          systemInstruction =
            map_option (\<lambda>si. \<lparr>parts = parts si, role = ''user''\<rparr>) systemInstruction'\<rparr>)"

subsection \<open>The coalescing rule in the specification's words\<close>

text \<open>
  Read off the specification: a maximal run of consecutive tool messages becomes one
  entry of role \<open>user\<close> holding their function responses in order; any other message
  ends the run and contributes its own entry, if it has parts.  A system message is not
  part of the conversation and contributes no entry.
\<close>

definition isToolMessage :: "message \<Rightarrow> bool" where
  "isToolMessage m = (m_role m = ''tool'')"

definition nonToolEntries_spec :: "requestEnv \<Rightarrow> message \<Rightarrow> content list" where
  "nonToolEntries_spec env m = (if m_role m = ''system'' then [] else messageEntries env m)"

function coalesceToolRuns_spec :: "requestEnv \<Rightarrow> message list \<Rightarrow> content list" where
  "coalesceToolRuns_spec env [] = []"
| "coalesceToolRuns_spec env (m # ms) =
     (if isToolMessage m
      then \<lparr>parts = Some (map (functionResponsePart env) (m # takeWhile isToolMessage ms)),
            role = ''user''\<rparr>
           # coalesceToolRuns_spec env (dropWhile isToolMessage ms)
      else nonToolEntries_spec env m @ coalesceToolRuns_spec env ms)"
  by pat_completeness auto
termination
  by (relation "measure (\<lambda>(env, ms). length ms)")
     (auto simp: length_dropWhile_le less_Suc_eq_le)

definition requestEnv_example :: requestEnv where
  "requestEnv_example =
     \<lparr>JSON_parse = (\<lambda>s. if s = ''1'' then Some (JNum 1) else if s = ''2'' then Some (JNum 2) else None),
      axiosGet = (\<lambda>u. None),
      mimeLookup = (\<lambda>u. None),
      contentToString = (\<lambda>c. [])\<rparr>"

definition toolMessage :: "string \<Rightarrow> string \<Rightarrow> message" where
  "toolMessage n c = \<lparr>m_role = ''tool'', m_content = ContentString c, m_name = Some n, m_tool_calls = None\<rparr>"

definition textMessage :: "string \<Rightarrow> string \<Rightarrow> message" where
  "textMessage r c = \<lparr>m_role = r, m_content = ContentString c, m_name = None, m_tool_calls = None\<rparr>"

definition interleaved_body :: openaiBody where
  "interleaved_body =
     \<lparr>body_messages = [toolMessage ''f'' ''1'', textMessage ''system'' ''be brief'', toolMessage ''g'' ''2'']\<rparr>"

subsection \<open>Notions used to state the converter's properties\<close>

text \<open>\<open>streamState.toolCallIndex ?? 0\<close>: the index the next tool call will get.\<close>

definition nextToolCallIndex :: "streamState \<Rightarrow> nat" where
  "nextToolCallIndex st = (case toolCallIndex st of None \<Rightarrow> 0 | Some i \<Rightarrow> i)"

text \<open>The image component of a usage record: the token counts of the \<open>IMAGE\<close> entries.\<close>

definition imageTokenSum :: "tokensDetail option list \<Rightarrow> int" where
  "imageTokenSum ds =
     sum_list (map (\<lambda>d. orZero (tokenCount d))
                   (filter (\<lambda>d. modality d = Some ''IMAGE'') (List.map_filter (\<lambda>d. d) ds)))"

definition usage_example :: usageMetadata where
  "usage_example =
     \<lparr>promptTokenCount = Some 10, toolUsePromptTokenCount = Some 3,
      candidatesTokenCount = Some 20, thoughtsTokenCount = None, totalTokenCount = Some 40,
      candidatesTokensDetails =
        Some [Some \<lparr>modality = Some ''IMAGE'', tokenCount = Some 7\<rparr>, None,
              Some \<lparr>modality = Some ''TEXT'', tokenCount = Some 13\<rparr>]\<rparr>"

definition response_example :: googleResponse where
  "response_example =
     \<lparr>candidates = None, promptFeedback = None, usageMetadata = Some usage_example\<rparr>"

definition blocked_example :: googleResponse where
  "blocked_example =
     \<lparr>candidates = Some [], promptFeedback = Some \<lparr>blockReason = Some ''SAFETY''\<rparr>,
      usageMetadata = None\<rparr>"

definition env_example :: converterEnv where
  "env_example =
     \<lparr>parseChunk = (\<lambda>s. if s = ''{}'' then ParsedResponse blocked_example else SyntaxError),
      JSON_stringify = (\<lambda>j. ''{}''),
      nowSeconds = 1700000000,
      requestIds = (\<lambda>k. ''r'')\<rparr>"

text \<open>
  What the sanitiser is meant to do to one entry, said without a flag: the first part that
  has a function call and lacks a signature receives the placeholder, nothing else changes.
\<close>

definition signFirst :: "part list \<Rightarrow> part list" where
  "signFirst ps =
     takeWhile (\<lambda>p. \<not> lacksSignature p) ps @
       (case dropWhile (\<lambda>p. \<not> lacksSignature p) ps of
          [] \<Rightarrow> []
        | p # rest \<Rightarrow> p\<lparr>thoughtSignature := Some DUMMY_THOUGHT_SIGNATURE\<rparr> # rest)"

definition signFirstContent :: "content \<Rightarrow> content" where
  "signFirstContent c = (case parts c of None \<Rightarrow> c | Some ps \<Rightarrow> c\<lparr>parts := Some (signFirst ps)\<rparr>)"

text \<open>The first part with a function call, if any, carries a non-empty signature.\<close>

definition firstCallSigned :: "content \<Rightarrow> bool" where
  "firstCallSigned c =
     (case parts c of
        None \<Rightarrow> True
      | Some ps \<Rightarrow>
          (case List.find (\<lambda>p. functionCall p \<noteq> None) ps of
             None \<Rightarrow> True
           | Some p \<Rightarrow> truthyString (thoughtSignature p)))"

definition callPart :: "string \<Rightarrow> part" where
  "callPart n = emptyPart\<lparr>functionCall := Some \<lparr>args = None, name = n\<rparr>\<rparr>"

definition twoCalls_body :: geminiBody where
  "twoCalls_body =
     \<lparr>contents = Some [\<lparr>parts = Some [callPart ''f'', callPart ''g''], role = ''model''\<rparr>],
      systemInstruction = None\<rparr>"

definition mixed_body :: geminiBody where
  "mixed_body =
     \<lparr>contents =
        Some [\<lparr>parts = Some [emptyPart\<lparr>part_text := Some ''hello''\<rparr>], role = ''user''\<rparr>,
              \<lparr>parts = Some [emptyPart\<lparr>part_text := Some ''thinking''\<rparr>,
                             (callPart ''f'')\<lparr>thoughtSignature := Some []\<rparr>,
                             callPart ''g''],
               role = ''model''\<rparr>,
              \<lparr>parts = None, role = ''user''\<rparr>],
      systemInstruction = None\<rparr>"

definition calls_response :: googleResponse where
  "calls_response =
     \<lparr>candidates =
        Some [\<lparr>cand_content =
                 Some \<lparr>parts = Some [callPart ''f'', emptyPart\<lparr>part_text := Some ''hi''\<rparr>,
                                      callPart ''g''],
                       role = ''model''\<rparr>,
               finishReason = None\<rparr>],
      promptFeedback = None, usageMetadata = None\<rparr>"

definition calls_env :: converterEnv where
  "calls_env =
     \<lparr>parseChunk = (\<lambda>s. if s = ''A'' then ParsedResponse calls_response else SyntaxError),
      JSON_stringify = (\<lambda>j. ''{}''),
      nowSeconds = 1700000000,
      requestIds = (\<lambda>k. ''r'')\<rparr>"

definition conversation_body :: openaiBody where
  "conversation_body =
     \<lparr>body_messages =
        [textMessage ''user'' ''hi'',
         \<lparr>m_role = ''assistant'', m_content = ContentOther (Some JNull), m_name = None,
          m_tool_calls =
            Some [\<lparr>tc_type = ''function'',
                   tc_function = Some \<lparr>tf_arguments = ArgumentsString ''1'', tf_name = ''f''\<rparr>\<rparr>,
                  \<lparr>tc_type = ''function'',
                   tc_function = Some \<lparr>tf_arguments = ArgumentsString ''x'', tf_name = ''g''\<rparr>\<rparr>]\<rparr>,
         toolMessage ''f'' ''1'',
         toolMessage ''g'' ''zz'',
         textMessage ''user'' [],
         toolMessage ''g'' ''2'',
         textMessage ''user'' ''thanks'']\<rparr>"

section \<open>Client agent (src/scripts/client/build.js)\<close>

subsection \<open>Header sanitisation\<close>

text \<open>
  Headers are a dictionary from names to values; \<open>{ ...headers }\<close> of an absent
  \<open>headers\<close> is the empty object.
\<close>

definition forbiddenHeaders :: "string list" where
  "forbiddenHeaders =
     [''host'', ''connection'', ''content-length'', ''origin'', ''referer'', ''user-agent'',
      ''sec-fetch-mode'', ''sec-fetch-site'', ''sec-fetch-dest'']"

definition sanitizeHeaders :: "(string \<rightharpoonup> string) option \<Rightarrow> (string \<rightharpoonup> string)" where
  "sanitizeHeaders headers =
     foldl (\<lambda>sanitized h. sanitized(h := None))
           (case headers of None \<Rightarrow> Map.empty | Some hs \<Rightarrow> hs)
           forbiddenHeaders"

subsection \<open>Request descriptors, URL construction and the response pump\<close>

text \<open>
  The fields of a request descriptor that the modelled code reads.  \<open>query_params\<close> is
  the list of the entries of the descriptor's \<open>query_params\<close> object, which
  \<open>URLSearchParams\<close> takes over in order; the percent-encoding of
  \<open>URLSearchParams.toString\<close> is the parameter \<open>enc\<close>.
\<close>

record requestSpec =
  request_id :: string
  url :: "string option"
  path :: "string option"
  query_params :: "(string \<times> string) list"
  streaming_mode :: "string option"
  headers :: "(string \<rightharpoonup> string) option"

definition searchParams_get :: "(string \<times> string) list \<Rightarrow> string \<Rightarrow> string option" where
  "searchParams_get queryParams k = map_of queryParams k"

definition searchParams_has :: "(string \<times> string) list \<Rightarrow> string \<Rightarrow> bool" where
  "searchParams_has queryParams k = (map_of queryParams k \<noteq> None)"

definition searchParams_delete :: "(string \<times> string) list \<Rightarrow> string \<Rightarrow> (string \<times> string) list" where
  "searchParams_delete queryParams k = filter (\<lambda>kv. fst kv \<noteq> k) queryParams"

definition searchParams_toString :: "(string \<Rightarrow> string) \<Rightarrow> (string \<times> string) list \<Rightarrow> string" where
  "searchParams_toString enc queryParams =
     joinWith ''&'' (map (\<lambda>kv. enc (fst kv) @ ''='' @ enc (snd kv)) queryParams)"

definition str_includes :: "string \<Rightarrow> string \<Rightarrow> bool" where
  "str_includes s p = (splitFirst s p \<noteq> None)"

definition replaceFirst :: "string \<Rightarrow> string \<Rightarrow> string \<Rightarrow> string" where
  "replaceFirst s p r = (case splitFirst s p of None \<Rightarrow> s | Some (a, b) \<Rightarrow> a @ r @ b)"

text \<open>
  The first block of \<open>_constructUrl\<close>, which computes \<open>pathAndQuery\<close> from the
  descriptor: \<open>queryParams\<close> after the fake-mode adjustment, \<open>finalPath\<close>, and their
  concatenation, unless the descriptor already carries a \<open>url\<close>.  The remainder of
  \<open>_constructUrl\<close> picks the host and normalises upload paths on this string.
\<close>

definition adjustedQueryParams :: "requestSpec \<Rightarrow> (string \<times> string) list" where
  "adjustedQueryParams requestSpec =
     (let queryParams = query_params requestSpec
      in if streaming_mode requestSpec = Some ''fake''
            \<and> searchParams_has queryParams ''alt''
            \<and> searchParams_get queryParams ''alt'' = Some ''sse''
         then searchParams_delete queryParams ''alt''
         else queryParams)"

definition pathSegment :: "requestSpec \<Rightarrow> string" where
  "pathSegment requestSpec = (if truthyString (path requestSpec) then the (path requestSpec) else [])"

definition finalPath :: "requestSpec \<Rightarrow> string" where
  "finalPath requestSpec =
     (let pathSegment' = pathSegment requestSpec
      in if streaming_mode requestSpec = Some ''fake'' \<and> str_includes pathSegment' '':streamGenerateContent''
         then replaceFirst pathSegment' '':streamGenerateContent'' '':generateContent''
         else pathSegment')"

definition pathAndQuery :: "(string \<Rightarrow> string) \<Rightarrow> requestSpec \<Rightarrow> string" where
  "pathAndQuery enc requestSpec =
     (if truthyString (url requestSpec) then the (url requestSpec)
      else (let queryString = searchParams_toString enc (adjustedQueryParams requestSpec)
            in finalPath requestSpec @ (if queryString \<noteq> [] then ''?'' @ queryString else [])))"

text \<open>
  \<open>_processProxyRequest\<close>.  What the browser does is the \<open>execution\<close>: whether the
  operation was already cancelled, how \<open>responsePromise\<close> settles (a response, or an
  error: a network failure, a non-2xx status, an abort or the idle timeout), and whether a
  cancel arrived while waiting.  A response has a body stream or none (\<open>response.body\<close>
  is \<open>null\<close>, as for a 204 or the answer to a HEAD request); a body stream is the list of
  its decoded chunks, followed by EOF or by a failing read.  The result is the list of
  frames handed to \<open>connectionManager.transmit\<close>, in order.  Two things are the
  browser's: the rewriting of a redirect URL in \<open>_transmitHeaders\<close> (\<open>rewriteUrl\<close>,
  \<open>None\<close> when the URL does not parse) and the message of the \<open>TypeError\<close> that
  \<open>response.body.getReader()\<close> raises on a \<open>null\<close> body (\<open>getReaderMessage\<close>).
\<close>

record browserEnv =
  rewriteUrl :: "string option \<Rightarrow> string \<Rightarrow> string option"
  getReaderMessage :: string

record jsError =
  err_name :: string
  err_message :: "string option"
  err_status :: "nat option"

record responseBody =
  body_chunks :: "string list"
  body_failure :: "jsError option"

record response =
  status :: nat
  response_headers :: "(string \<times> string) list"
  response_body :: "responseBody option"

datatype fetchOutcome = Responded response | Threw jsError

record execution =
  cancelledAtStart :: bool
  responseOutcome :: fetchOutcome
  cancelledAfterResponse :: bool

datatype frame =
    ResponseHeadersFrame string nat "(string \<times> string) list"
  | ChunkFrame string string
  | StreamCloseFrame string
  | ErrorFrame string string nat

definition abortError :: jsError where
  "abortError = \<lparr>err_name = ''AbortError'', err_message = Some ''The user aborted a request.'',
                 err_status = None\<rparr>"

definition getReaderError :: "browserEnv \<Rightarrow> jsError" where
  "getReaderError env =
     \<lparr>err_name = ''TypeError'', err_message = Some (getReaderMessage env), err_status = None\<rparr>"

definition transmitHeaders ::
  "browserEnv \<Rightarrow> response \<Rightarrow> string \<Rightarrow> string option \<Rightarrow> frame list" where
  "transmitHeaders env r operationId proxyHost =
     [ResponseHeadersFrame operationId (status r)
        (map (\<lambda>kv.
                (fst kv,
                 if (toLowerCase (fst kv) = ''location'' \<or> toLowerCase (fst kv) = ''x-goog-upload-url'')
                    \<and> str_includes (snd kv) ''googleapis.com''
                 then (case rewriteUrl env proxyHost (snd kv) of
                         None \<Rightarrow> snd kv
                       | Some newUrl \<Rightarrow> newUrl)
                 else snd kv))
             (response_headers r))]"

definition transmitChunk :: "string \<Rightarrow> string \<Rightarrow> frame list" where
  "transmitChunk d operationId = (if d = [] then [] else [ChunkFrame operationId d])"

definition transmitStreamEnd :: "string \<Rightarrow> frame list" where
  "transmitStreamEnd operationId = [StreamCloseFrame operationId]"

definition sendErrorResponse :: "jsError \<Rightarrow> string \<Rightarrow> frame list" where
  "sendErrorResponse error operationId =
     (if operationId = [] then []
      else [ErrorFrame operationId
              (''Proxy browser error: '' @
                 (if truthyString (err_message error) then the (err_message error)
                  else ''Unknown error''))
              (case err_status error of None \<Rightarrow> 504 | Some st \<Rightarrow> if st = 0 then 504 else st)])"

fun readBody :: "string \<Rightarrow> string \<Rightarrow> string list \<Rightarrow> string \<times> frame list \<Rightarrow> string \<times> frame list" where
  "readBody mode operationId [] st = st"
| "readBody mode operationId (chunk # rest) st =
     (case st of (fullBody, frames) \<Rightarrow>
        if mode = ''real''
        then readBody mode operationId rest (fullBody, frames @ transmitChunk chunk operationId)
        else readBody mode operationId rest (fullBody @ chunk, frames))"

definition processProxyRequest :: "browserEnv \<Rightarrow> requestSpec \<Rightarrow> execution \<Rightarrow> frame list" where
  "processProxyRequest env requestSpec ex =
     (let operationId = request_id requestSpec;
          mode = (if truthyString (streaming_mode requestSpec) then the (streaming_mode requestSpec)
                  else ''fake'')
      in if cancelledAtStart ex then sendErrorResponse abortError operationId
         else
           (case responseOutcome ex of
              Threw error \<Rightarrow> sendErrorResponse error operationId
            | Responded r \<Rightarrow>
                if cancelledAfterResponse ex then sendErrorResponse abortError operationId
                else
                  (let headerFrames =
                         transmitHeaders env r operationId
                           (case headers requestSpec of None \<Rightarrow> None | Some hs \<Rightarrow> hs ''host'')
                   in case response_body r of
                        None \<Rightarrow> headerFrames @ sendErrorResponse (getReaderError env) operationId
                      | Some bd \<Rightarrow>
                          (case readBody mode operationId (body_chunks bd) ([], headerFrames) of
                             (fullBody, frames) \<Rightarrow>
                               (case body_failure bd of
                                  Some error \<Rightarrow> frames @ sendErrorResponse error operationId
                                | None \<Rightarrow>
                                    frames
                                    @ (if mode = ''fake'' then transmitChunk fullBody operationId
                                       else [])
                                    @ transmitStreamEnd operationId)))))"

definition fake_spec :: requestSpec where
  "fake_spec =
     \<lparr>request_id = ''r1'', url = None, path = Some ''/m:streamGenerateContent'',
      query_params = [(''alt'', ''sse''), (''key'', ''k'')],
      streaming_mode = Some ''fake'', headers = None\<rparr>"

definition url_spec :: requestSpec where
  "url_spec = fake_spec\<lparr>url := Some ''/m:streamGenerateContent?alt=sse''\<rparr>"

definition json_spec :: requestSpec where
  "json_spec = fake_spec\<lparr>query_params := [(''alt'', ''json''), (''key'', ''k'')]\<rparr>"

definition browser_example :: browserEnv where
  "browser_example = \<lparr>rewriteUrl = (\<lambda>h u. None), getReaderMessage = ''body is null''\<rparr>"

definition ok_response :: "string list \<Rightarrow> response" where
  "ok_response chunks =
     \<lparr>status = 200, response_headers = [(''content-type'', ''text/plain'')],
      response_body = Some \<lparr>body_chunks = chunks, body_failure = None\<rparr>\<rparr>"

definition ok_execution :: "string list \<Rightarrow> execution" where
  "ok_execution chunks =
     \<lparr>cancelledAtStart = False, responseOutcome = Responded (ok_response chunks),
      cancelledAfterResponse = False\<rparr>"

subsection \<open>Normalising \<open>responseModalities\<close>\<close>

text \<open>
  The last block of the body filters in \<open>_buildRequestConfig\<close>, as a function of the
  value of \<open>bodyObj.generationConfig?.responseModalities\<close> (\<open>None\<close> when absent).
\<close>

definition upperIfString :: "json \<Rightarrow> json" where
  "upperIfString m = (case m of JStr s \<Rightarrow> JStr (toUpperCase s) | _ \<Rightarrow> m)"

definition normalizeResponseModalities :: "json option \<Rightarrow> json option" where
  "normalizeResponseModalities v =
     (case v of
        None \<Rightarrow> None
      | Some j \<Rightarrow>
          if truthy j then
            (case j of
               JArr ms \<Rightarrow> Some (JArr (map upperIfString ms))
             | JStr s \<Rightarrow> Some (JArr [JStr (toUpperCase s)])
             | _ \<Rightarrow> Some j)
          else Some j)"

section \<open>Properties of the message queue\<close>

lemma run_Cons_fst: "fst (run q (e # es)) = fst (run (fst (step e q)) es)"
  by (simp split: prod.splits)

lemma run_Cons_snd: "snd (run q (e # es)) = snd (step e q) @ snd (run (fst (step e q)) es)"
  by (simp split: prod.splits)

lemma queue_wf_new: "queue_wf (MessageQueue_new t)"
  by (simp add: queue_wf_def MessageQueue_new_def)

lemma queue_wf_step: "queue_wf q \<Longrightarrow> queue_wf (fst (step e q))"
  by (cases e)
     (auto simp: queue_wf_def enqueue_def dequeue_def timerFires_def close_def Let_def
                 list_all_iff
           split: list.splits dest: less_SucI)

lemma queue_wf_run: "queue_wf q \<Longrightarrow> queue_wf (fst (run q es))"
proof (induction es arbitrary: q)
  case Nil
  then show ?case by simp
next
  case (Cons e es)
  from Cons.prems have "queue_wf (fst (step e q))" by (rule queue_wf_step)
  then have "queue_wf (fst (run (fst (step e q)) es))" by (rule Cons.IH)
  then show ?case by (simp only: run_Cons_fst)
qed

lemma dropped_step: "dropped r q \<Longrightarrow> dropped r (fst (step e q))"
  by (cases e)
     (auto simp: dropped_def enqueue_def dequeue_def timerFires_def close_def Let_def
           split: list.splits dest: notin_set_remove1)

lemma dropped_step_silent: "dropped r q \<Longrightarrow> Resolved r m \<notin> set (snd (step e q))"
  by (cases e)
     (auto simp: dropped_def enqueue_def dequeue_def timerFires_def close_def Let_def
           split: list.splits)

lemma dropped_run_silent: "dropped r q \<Longrightarrow> Resolved r m \<notin> set (snd (run q es))"
proof (induction es arbitrary: q)
  case Nil
  then show ?case by simp
next
  case (Cons e es)
  have a: "Resolved r m \<notin> set (snd (step e q))"
    using Cons.prems by (rule dropped_step_silent)
  have "dropped r (fst (step e q))" using Cons.prems by (rule dropped_step)
  then have b: "Resolved r m \<notin> set (snd (run (fst (step e q)) es))" by (rule Cons.IH)
  from a b show ?case by (simp add: run_Cons_snd del: run.simps)
qed

lemma timerFires_drops:
  "queue_wf q \<Longrightarrow> r \<in> set (waitingResolvers q) \<Longrightarrow> dropped r (fst (timerFires r q))"
  by (auto simp: queue_wf_def dropped_def timerFires_def list_all_iff)

lemma closed_step:
  "closed q \<Longrightarrow> messages q = [] \<Longrightarrow> closed (fst (step e q)) \<and> messages (fst (step e q)) = []"
  by (cases e) (auto simp: enqueue_def dequeue_def timerFires_def close_def Let_def)

lemma closed_step_no_delivery: "closed q \<Longrightarrow> Resolved p m \<notin> set (snd (step e q))"
  by (cases e) (auto simp: enqueue_def dequeue_def timerFires_def close_def Let_def)

lemma closed_run:
  "closed q \<Longrightarrow> messages q = [] \<Longrightarrow>
     closed (fst (run q es)) \<and> messages (fst (run q es)) = []
     \<and> Resolved p m \<notin> set (snd (run q es))"
proof (induction es arbitrary: q)
  case Nil
  then show ?case by simp
next
  case (Cons e es)
  have s: "closed (fst (step e q))" "messages (fst (step e q)) = []"
    using Cons.prems closed_step [of q e] by simp_all
  have n: "Resolved p m \<notin> set (snd (step e q))"
    using Cons.prems(1) by (rule closed_step_no_delivery)
  from Cons.IH [OF s] n show ?case
    by (simp add: run_Cons_fst run_Cons_snd del: run.simps)
qed

text \<open>
  Claim C3.  On a closed queue \<open>enqueue\<close> changes nothing and settles no promise (the
  message is dropped, nothing is raised); \<open>dequeue\<close> on a closed queue rejects its promise
  with the error \<open>Queue is closed\<close> and parks nothing; and once the timer of a parked
  resolver has fired (the resolver is rejected with \<open>Queue timeout\<close> and removed), no
  later sequence of queue operations resolves that resolver with a message.  The third part
  is stated for every queue reachable from the constructor.
\<close>

theorem MessageQueue_closed_and_timeout:
  "(closed q \<longrightarrow> enqueue m q = (q, []))
   \<and> (closed q \<longrightarrow>
        dequeue q = (q\<lparr>allocated := Suc (allocated q)\<rparr>,
                     [Rejected (allocated q) (Error ''Queue is closed'')]))
   \<and> (r \<in> set (waitingResolvers (fst (run (MessageQueue_new t) es1))) \<longrightarrow>
        snd (timerFires r (fst (run (MessageQueue_new t) es1)))
          = [Rejected r (Error ''Queue timeout'')]
        \<and> Resolved r m' \<notin>
            set (snd (run (fst (timerFires r (fst (run (MessageQueue_new t) es1)))) es2)))"
proof (intro conjI impI)
  assume "closed q"
  then show "enqueue m q = (q, [])" by (simp add: enqueue_def)
next
  assume "closed q"
  then show "dequeue q = (q\<lparr>allocated := Suc (allocated q)\<rparr>,
                          [Rejected (allocated q) (Error ''Queue is closed'')])"
    by (simp add: dequeue_def Let_def)
next
  assume "r \<in> set (waitingResolvers (fst (run (MessageQueue_new t) es1)))"
  then show "snd (timerFires r (fst (run (MessageQueue_new t) es1)))
               = [Rejected r (Error ''Queue timeout'')]"
    by (simp add: timerFires_def)
next
  let ?q = "fst (run (MessageQueue_new t) es1)"
  assume parked: "r \<in> set (waitingResolvers ?q)"
  have "queue_wf ?q" using queue_wf_new by (rule queue_wf_run)
  then have "dropped r (fst (timerFires r ?q))" using parked by (rule timerFires_drops)
  then show "Resolved r m' \<notin> set (snd (run (fst (timerFires r ?q)) es2))"
    by (rule dropped_run_silent)
qed

theorem MessageQueue_closed_and_timeout_witness:
  "closed (fst (close (MessageQueue_new 600000 :: nat MessageQueue)))
   \<and> enqueue 1 (fst (close (MessageQueue_new 600000 :: nat MessageQueue)))
       = (fst (close (MessageQueue_new 600000)), [])
   \<and> snd (dequeue (fst (close (MessageQueue_new 600000 :: nat MessageQueue))))
       = [Rejected 0 (Error ''Queue is closed'')]
   \<and> 1 \<in> set (waitingResolvers (fst (run (MessageQueue_new 600000 :: nat MessageQueue)
                                        [Dequeue, Dequeue])))
   \<and> Resolved 1 8 \<notin>
       set (snd (run (fst (timerFires 1 (fst (run (MessageQueue_new 600000 :: nat MessageQueue)
                                              [Dequeue, Dequeue]))))
                     [Enqueue 7, Enqueue 8, Dequeue]))"
  using MessageQueue_closed_and_timeout
          [of "fst (close (MessageQueue_new 600000 :: nat MessageQueue))" 1 1 600000
              "[Dequeue, Dequeue]" 8 "[Enqueue 7, Enqueue 8, Dequeue]"]
  by (simp add: close_def MessageQueue_new_def dequeue_def enqueue_def timerFires_def Let_def)

text \<open>
  Claim C9.  \<open>close\<close> rejects every parked resolver with the error \<open>Queue closed\<close>, in
  the order in which they were parked, and leaves the queue closed with no parked resolver
  and no buffered message; after a close no sequence of operations ever delivers a message
  or buffers one; and a second \<open>close\<close> leaves the queue as it is and settles nothing.
\<close>

theorem MessageQueue_close_discards_idempotent:
  "snd (close q) = map (\<lambda>resolver. Rejected resolver (Error ''Queue closed'')) (waitingResolvers q)
   \<and> closed (fst (close q))
   \<and> waitingResolvers (fst (close q)) = []
   \<and> messages (fst (close q)) = []
   \<and> messages (fst (run (fst (close q)) es)) = []
   \<and> Resolved p m \<notin> set (snd (run (fst (close q)) es))
   \<and> close (fst (close q)) = (fst (close q), [])"
proof -
  have c: "closed (fst (close q))" by (simp add: close_def)
  have m: "messages (fst (close q)) = []" by (simp add: close_def)
  from closed_run [OF c m, of es p m] show ?thesis
    by (simp add: close_def)
qed

theorem MessageQueue_close_discards_idempotent_witness:
  "snd (close (fst (run (MessageQueue_new 600000 :: nat MessageQueue) [Dequeue, Dequeue])))
     = [Rejected 0 (Error ''Queue closed''), Rejected 1 (Error ''Queue closed'')]
   \<and> run (fst (close (fst (run (MessageQueue_new 600000 :: nat MessageQueue) [Enqueue 4, Enqueue 5]))))
         [Enqueue 6, Dequeue, Close]
       = (\<lparr>messages = [], waitingResolvers = [], defaultTimeout = 600000, closed = True,
           allocated = 1\<rparr>,
          [Rejected 0 (Error ''Queue is closed'')])"
  using MessageQueue_close_discards_idempotent
          [of "fst (run (MessageQueue_new 600000 :: nat MessageQueue) [Dequeue, Dequeue])"]
  by (simp add: MessageQueue_new_def dequeue_def enqueue_def close_def Let_def)

section \<open>Properties of the format converter: responses\<close>

lemma upt_join: "a \<le> b \<Longrightarrow> b \<le> c \<Longrightarrow> [a ..< b] @ [b ..< c] = [a ..< (c::nat)]"
  using upt_add_eq_append [of a b "c - b"] by simp

lemma emittedToolIndexes_append:
  "emittedToolIndexes (xs @ ys) = emittedToolIndexes xs @ emittedToolIndexes ys"
  by (simp add: emittedToolIndexes_def)

lemma streamPart_indexes:
  "streamPart env m sid cr (st, k, out) p = (st', k', out') \<Longrightarrow>
     emittedToolIndexes out' = emittedToolIndexes out @ [nextToolCallIndex st ..< nextToolCallIndex st']
     \<and> nextToolCallIndex st \<le> nextToolCallIndex st'"
  by (auto simp: streamPart_def Let_def emittedToolIndexes_append emittedToolIndexes_def
                 sseToolIndexes_def mkChunk_def emptyDelta_def nextToolCallIndex_def
           split: if_splits option.splits)

lemma foldl_streamPart_indexes:
  "foldl (streamPart env m sid cr) (st, k, out) ps = (st', k', out') \<Longrightarrow>
     emittedToolIndexes out' = emittedToolIndexes out @ [nextToolCallIndex st ..< nextToolCallIndex st']
     \<and> nextToolCallIndex st \<le> nextToolCallIndex st'"
proof (induction ps arbitrary: st k out)
  case Nil
  then show ?case by simp
next
  case (Cons p ps)
  obtain st1 k1 out1 where s: "streamPart env m sid cr (st, k, out) p = (st1, k1, out1)"
    by (cases "streamPart env m sid cr (st, k, out) p") auto
  from Cons.prems s have f: "foldl (streamPart env m sid cr) (st1, k1, out1) ps = (st', k', out')"
    by simp
  from streamPart_indexes [OF s] Cons.IH [OF f] show ?case
    by (simp add: upt_join)
qed

lemma translateResponse_indexes:
  assumes a: "translateResponse env g m st k = (st', r)"
  shows "emittedToolIndexes (resultLines (Inr r)) = [nextToolCallIndex st ..< nextToolCallIndex st']
         \<and> nextToolCallIndex st \<le> nextToolCallIndex st'"
proof -
  let ?st1 = "(case usageMetadata g of None \<Rightarrow> st
               | Some u \<Rightarrow> st\<lparr>state_usage := Some (parseUsage g)\<rparr>)"
  have i1: "nextToolCallIndex ?st1 = nextToolCallIndex st"
    by (simp add: nextToolCallIndex_def split: option.splits)
  show ?thesis
  proof (cases "firstCandidate g")
    case None
    with a i1 show ?thesis
      by (auto simp: translateResponse_def Let_def resultLines_def emittedToolIndexes_def
                     sseToolIndexes_def mkChunk_def emptyDelta_def nextToolCallIndex_def
               split: option.splits)
  next
    case (Some c)
    obtain st2 k2 out2 where
      f: "foldl (streamPart env m (case state_id st of None \<Rightarrow> [] | Some i \<Rightarrow> i) (state_created st))
                (?st1, k, []) (candidateParts c) = (st2, k2, out2)"
      by (metis prod_cases3)
    from foldl_streamPart_indexes [OF f] i1
    have o: "emittedToolIndexes out2 = [nextToolCallIndex st ..< nextToolCallIndex st2]"
            "nextToolCallIndex st \<le> nextToolCallIndex st2"
      by (simp_all add: emittedToolIndexes_def)
    from a Some f have st': "st' = st2" by (simp add: translateResponse_def Let_def)
    from a Some f have "emittedToolIndexes (resultLines (Inr r)) = emittedToolIndexes out2"
      by (auto simp: translateResponse_def Let_def resultLines_def emittedToolIndexes_def
                     sseToolIndexes_def mkChunk_def emptyDelta_def
               split: if_splits)
    with o st' show ?thesis by simp
  qed
qed

lemma translateGoogleToOpenAIStream_indexes:
  "translateGoogleToOpenAIStream env chunk m (Some st) = (st', r) \<Longrightarrow>
     (\<exists>s. st' = Some s
          \<and> emittedToolIndexes (resultLines r) = [nextToolCallIndex st ..< nextToolCallIndex s]
          \<and> nextToolCallIndex st \<le> nextToolCallIndex s)"
  apply (simp add: translateGoogleToOpenAIStream_def Let_def
              split: if_splits parsedChunk.splits prod.splits)
  apply (auto simp: resultLines_def emittedToolIndexes_def sseToolIndexes_def nextToolCallIndex_def
              dest!: translateResponse_indexes)
  done

lemma streamToolIndexes_Cons:
  "streamToolIndexes (r # rs) = emittedToolIndexes (resultLines r) @ streamToolIndexes rs"
  by (simp add: streamToolIndexes_def emittedToolIndexes_def)

lemma translateStream_indexes:
  "translateStream envs chunks m st = (st', rs) \<Longrightarrow>
     streamToolIndexes rs = [nextToolCallIndex st ..< nextToolCallIndex st']
     \<and> nextToolCallIndex st \<le> nextToolCallIndex st'"
proof (induction envs chunks m st arbitrary: st' rs rule: translateStream.induct)
  case (1 env envs googleChunk chunks modelName st)
  obtain s1 r where
    h: "translateGoogleToOpenAIStream env googleChunk modelName (Some st) = (s1, r)"
    by (cases "translateGoogleToOpenAIStream env googleChunk modelName (Some st)") auto
  from translateGoogleToOpenAIStream_indexes [OF h] obtain s where
    s: "s1 = Some s"
       "emittedToolIndexes (resultLines r) = [nextToolCallIndex st ..< nextToolCallIndex s]"
       "nextToolCallIndex st \<le> nextToolCallIndex s"
    by blast
  obtain st2 rs2 where t: "translateStream envs chunks modelName s = (st2, rs2)"
    by (cases "translateStream envs chunks modelName s") auto
  from "1.prems" h s(1) t have e: "st' = st2" "rs = r # rs2" by simp_all
  from "1.IH" [OF h [symmetric], of st2 rs2] s(1) t
  have i: "streamToolIndexes rs2 = [nextToolCallIndex s ..< nextToolCallIndex st2]"
          "nextToolCallIndex s \<le> nextToolCallIndex st2"
    by simp_all
  from e s i show ?case by (simp add: streamToolIndexes_Cons upt_join)
qed (simp_all add: streamToolIndexes_def emittedToolIndexes_def)

text \<open>
  Claim C2.  When the chunks of one stream are converted in order with one shared state
  object on which no tool-call index has been recorded yet, the \<open>index\<close> values of the
  emitted \<open>tool_calls\<close> entries, read in emission order, are exactly \<open>0, 1, \<dots>, n - 1\<close>
  where \<open>n\<close> is the number of emitted entries: there is no gap, and the entry at position
  \<open>i\<close> carries the index \<open>i\<close>, the number of entries emitted before it.
\<close>

theorem stream_tool_call_indexes:
  "streamToolIndexes (snd (translateStream envs chunks modelName (st\<lparr>toolCallIndex := None\<rparr>)))
     = [0 ..< length (streamToolIndexes
                        (snd (translateStream envs chunks modelName (st\<lparr>toolCallIndex := None\<rparr>))))]"
proof -
  obtain st' rs where
    t: "translateStream envs chunks modelName (st\<lparr>toolCallIndex := None\<rparr>) = (st', rs)"
    by (cases "translateStream envs chunks modelName (st\<lparr>toolCallIndex := None\<rparr>)") auto
  from translateStream_indexes [OF t] have "streamToolIndexes rs = [0 ..< nextToolCallIndex st']"
    by (simp add: nextToolCallIndex_def)
  then show ?thesis using t by simp
qed

theorem stream_tool_call_indexes_witness:
  "streamToolIndexes
     (snd (translateStream [calls_env, calls_env, calls_env] [''data: A'', ''x'', ''A''] ''m''
             emptyStreamState))
     = [0, 1, 2, 3]"
  using stream_tool_call_indexes
          [of "[calls_env, calls_env, calls_env]" "[''data: A'', ''x'', ''A'']" "''m''"
              emptyStreamState]
  by (simp add: emptyStreamState_def translateGoogleToOpenAIStream_def translateResponse_def
                calls_env_def calls_response_def jsonString_def startsWith_def trim_def
                isSpace_def firstCandidate_def candidateParts_def streamPart_def callPart_def
                emptyPart_def truthyString_def Let_def streamToolIndexes_def resultLines_def
                emittedToolIndexes_def sseToolIndexes_def mkChunk_def emptyDelta_def)

lemma foldl_addImageTokens: "foldl addImageTokens a ds = a + imageTokenSum ds"
  by (induction ds arbitrary: a)
     (auto simp: imageTokenSum_def addImageTokens_def List.map_filter_simps split: option.splits)

text \<open>
  Claim C7.  For a response that carries \<open>usageMetadata\<close>, \<open>_parseUsage\<close> returns
  \<open>prompt_tokens = promptTokenCount + toolUsePromptTokenCount\<close> and
  \<open>completion_tokens = candidatesTokenCount + thoughtsTokenCount\<close> (an absent count is 0),
  \<open>prompt_tokens_details\<close> holds the two summands of the prompt as text and tool tokens, and
  \<open>completion_tokens_details\<close> holds the two summands of the completion as output-text and
  reasoning tokens together with the image tokens, the sum of the token counts of the
  \<open>IMAGE\<close> entries of \<open>candidatesTokensDetails\<close>.
\<close>

theorem parseUsage_token_accounting:
  "usageMetadata g = Some u \<Longrightarrow>
     prompt_tokens (parseUsage g) = orZero (promptTokenCount u) + orZero (toolUsePromptTokenCount u)
   \<and> completion_tokens (parseUsage g)
       = orZero (candidatesTokenCount u) + orZero (thoughtsTokenCount u)
   \<and> prompt_tokens_details (parseUsage g)
       = Some \<lparr>text_tokens = orZero (promptTokenCount u),
               tool_tokens = orZero (toolUsePromptTokenCount u)\<rparr>
   \<and> completion_tokens_details (parseUsage g)
       = Some \<lparr>image_tokens =
                 (case candidatesTokensDetails u of None \<Rightarrow> 0 | Some ds \<Rightarrow> imageTokenSum ds),
               output_text_tokens = orZero (candidatesTokenCount u),
               reasoning_tokens = orZero (thoughtsTokenCount u)\<rparr>"
  by (simp add: parseUsage_def Let_def foldl_addImageTokens split: option.splits)

theorem parseUsage_token_accounting_witness:
  "usageMetadata response_example = Some usage_example
   \<and> prompt_tokens (parseUsage response_example) = 13
   \<and> completion_tokens (parseUsage response_example) = 20
   \<and> prompt_tokens_details (parseUsage response_example) = Some \<lparr>text_tokens = 10, tool_tokens = 3\<rparr>
   \<and> completion_tokens_details (parseUsage response_example)
       = Some \<lparr>image_tokens = 7, output_text_tokens = 20, reasoning_tokens = 0\<rparr>"
  using parseUsage_token_accounting [of response_example usage_example]
  by (simp add: response_example_def usage_example_def orZero_def imageTokenSum_def
                List.map_filter_simps)

text \<open>
  Claim C10.  For a response object without a first candidate,
  \<open>convertGoogleToOpenAINonStream\<close> raises nothing and returns a completion whose single
  choice has the message \<open>{role: "assistant", content: ""}\<close> and finish reason \<open>stop\<close>,
  with a usage of three zeros, whether or not \<open>promptFeedback\<close> is present.  The streaming
  converter, given a chunk that parses to the same response with a \<open>promptFeedback\<close>,
  emits one line whose delta content is the safety-block error text and whose finish reason
  is \<open>stop\<close>.
\<close>

theorem nonstream_no_candidates:
  "firstCandidate g = None \<Longrightarrow>
     convertGoogleToOpenAINonStream env (Some g) modelName
       = Inr \<lparr>cc_choices =
                [\<lparr>cc_finish_reason = ''stop'', cc_index = 0,
                  cc_message = \<lparr>msg_content = [], msg_role = ''assistant'',
                                msg_reasoning_content = None, msg_tool_calls = None\<rparr>\<rparr>],
              cc_created = nowSeconds env,
              cc_id = ''chatcmpl-'' @ requestIds env 0,
              cc_model = modelName,
              cc_object = ''chat.completion'',
              cc_usage = \<lparr>completion_tokens = 0, completion_tokens_details = None,
                          prompt_tokens = 0, prompt_tokens_details = None,
                          total_tokens = 0\<rparr>\<rparr>
   \<and> (promptFeedback g = Some fb \<longrightarrow> googleChunk \<noteq> [] \<longrightarrow> trim googleChunk \<noteq> [] \<longrightarrow>
        jsonString googleChunk \<noteq> ''[DONE]'' \<longrightarrow>
        parseChunk env (jsonString googleChunk) = ParsedResponse g \<longrightarrow>
        (\<exists>created' streamId.
           snd (translateGoogleToOpenAIStream env googleChunk modelName (Some st))
             = Inr (Some [Data (mkChunk (emptyDelta\<lparr>delta_content := Some (blockedText fb)\<rparr>)
                                  (Some ''stop'') created' streamId modelName None)])))"
  by (auto simp: convertGoogleToOpenAINonStream_def translateGoogleToOpenAIStream_def
                 translateResponse_def Let_def)

theorem nonstream_no_candidates_witness:
  "firstCandidate blocked_example = None
   \<and> promptFeedback blocked_example = Some \<lparr>blockReason = Some ''SAFETY''\<rparr>
   \<and> map cc_message
        (cc_choices (projr (convertGoogleToOpenAINonStream env_example (Some blocked_example) ''m'')))
        = [\<lparr>msg_content = [], msg_role = ''assistant'',
            msg_reasoning_content = None, msg_tool_calls = None\<rparr>]
   \<and> (\<exists>created' streamId.
         snd (translateGoogleToOpenAIStream env_example ''data: {}'' ''m'' (Some emptyStreamState))
           = Inr (Some [Data (mkChunk
                    (emptyDelta\<lparr>delta_content := Some
                       ''[ProxySystem Error] Request blocked due to safety settings. Finish Reason: SAFETY''\<rparr>)
                    (Some ''stop'') created' streamId ''m'' None)]))"
  using nonstream_no_candidates
          [where g = blocked_example and fb = "\<lparr>blockReason = Some ''SAFETY''\<rparr>"
             and googleChunk = "''data: {}''" and env = env_example and modelName = "''m''"
             and st = emptyStreamState]
  by (simp add: blocked_example_def env_example_def firstCandidate_def jsonString_def
                startsWith_def trim_def isSpace_def blockedText_def)

section \<open>Properties of the native-request sanitiser\<close>

lemma ensureParts_True: "ensureParts True ps = ps"
  by (induction ps) simp_all

lemma ensureParts_signFirst: "ensureParts False ps = signFirst ps"
  by (induction ps) (simp_all add: signFirst_def ensureParts_True)

lemma ensureContent_signFirstContent: "ensureContent c = signFirstContent c"
  by (simp add: ensureContent_def signFirstContent_def ensureParts_signFirst split: option.splits)

lemma find_call_ensureParts:
  "(case List.find (\<lambda>p. functionCall p \<noteq> None) (ensureParts False ps) of
      None \<Rightarrow> True
    | Some p \<Rightarrow> truthyString (thoughtSignature p))"
  by (induction ps)
     (auto simp: lacksSignature_def truthyString_def DUMMY_THOUGHT_SIGNATURE_def
           split: option.splits)

lemma firstCallSigned_ensureContent: "firstCallSigned (ensureContent c)"
  using find_call_ensureParts
  by (simp add: firstCallSigned_def ensureContent_def split: option.splits)

text \<open>
  Claim C6, as the code has it.  \<open>ensureThoughtSignature\<close> gives the placeholder to at most
  one part of each \<open>contents\<close> entry: the first part that has a function call and lacks a
  (non-empty) signature; every other part, and every entry without a parts array, is left
  as it was.  As a consequence the first function-call part of every entry carries a
  signature afterwards; a later function-call part that lacked one still lacks it.
\<close>

theorem ensureThoughtSignature_first_call:
  "contents b = Some cs \<Longrightarrow>
     ensureThoughtSignature (Some b) = Some (b\<lparr>contents := Some (map signFirstContent cs)\<rparr>)
     \<and> list_all firstCallSigned (map signFirstContent cs)"
proof -
  assume c: "contents b = Some cs"
  have m: "map ensureContent cs = map signFirstContent cs"
    by (simp add: ensureContent_signFirstContent)
  have "list_all firstCallSigned (map ensureContent cs)"
    by (simp add: list_all_iff firstCallSigned_ensureContent)
  then have l: "list_all firstCallSigned (map signFirstContent cs)"
    by (simp only: m)
  from c have "ensureThoughtSignature (Some b) = Some (b\<lparr>contents := Some (map ensureContent cs)\<rparr>)"
    by (simp add: ensureThoughtSignature_def)
  then have "ensureThoughtSignature (Some b) = Some (b\<lparr>contents := Some (map signFirstContent cs)\<rparr>)"
    by (simp only: m)
  with l show ?thesis by blast
qed

theorem ensureThoughtSignature_first_call_witness:
  "contents mixed_body = Some
     [\<lparr>parts = Some [emptyPart\<lparr>part_text := Some ''hello''\<rparr>], role = ''user''\<rparr>,
      \<lparr>parts = Some [emptyPart\<lparr>part_text := Some ''thinking''\<rparr>,
                     (callPart ''f'')\<lparr>thoughtSignature := Some []\<rparr>,
                     callPart ''g''],
       role = ''model''\<rparr>,
      \<lparr>parts = None, role = ''user''\<rparr>]
   \<and> ensureThoughtSignature (Some mixed_body)
       = Some (mixed_body\<lparr>contents := Some
           [\<lparr>parts = Some [emptyPart\<lparr>part_text := Some ''hello''\<rparr>], role = ''user''\<rparr>,
            \<lparr>parts = Some [emptyPart\<lparr>part_text := Some ''thinking''\<rparr>,
                           (callPart ''f'')\<lparr>thoughtSignature := Some DUMMY_THOUGHT_SIGNATURE\<rparr>,
                           callPart ''g''],
             role = ''model''\<rparr>,
            \<lparr>parts = None, role = ''user''\<rparr>]\<rparr>)"
  using ensureThoughtSignature_first_call [of mixed_body "the (contents mixed_body)"]
  by (simp add: mixed_body_def signFirstContent_def signFirst_def lacksSignature_def
                truthyString_def callPart_def emptyPart_def)

text \<open>
  The claim as the specification words it fails: with two function-call parts in one
  entry, neither carrying a signature, the second one has no \<open>thoughtSignature\<close> field
  after the call.
\<close>

theorem ensureThoughtSignature_counterexample:
  "ensureThoughtSignature (Some twoCalls_body)
     = Some (twoCalls_body\<lparr>contents :=
         Some [\<lparr>parts = Some [(callPart ''f'')\<lparr>thoughtSignature := Some DUMMY_THOUGHT_SIGNATURE\<rparr>,
                              callPart ''g''],
                role = ''model''\<rparr>]\<rparr>)
   \<and> functionCall (callPart ''g'') \<noteq> None \<and> thoughtSignature (callPart ''g'') = None"
  by (simp add: ensureThoughtSignature_def twoCalls_body_def ensureContent_def callPart_def
                emptyPart_def lacksSignature_def truthyString_def)

section \<open>Properties of the client agent\<close>

lemma foldl_delete: "foldl (\<lambda>m h. m(h := None)) m0 hs k = (if k \<in> set hs then None else m0 k)"
  by (induction hs arbitrary: m0) auto

text \<open>
  Claim C5, as the code has it.  \<open>_sanitizeHeaders\<close> removes exactly the nine names of its
  list: \<open>host\<close>, \<open>connection\<close>, \<open>content-length\<close>, \<open>origin\<close>, \<open>referer\<close>,
  \<open>user-agent\<close>, \<open>sec-fetch-mode\<close>, \<open>sec-fetch-site\<close> and \<open>sec-fetch-dest\<close>; every other
  header keeps its value.
\<close>

theorem sanitizeHeaders_removes_listed:
  "sanitizeHeaders (Some hs) k = (if k \<in> set forbiddenHeaders then None else hs k)
   \<and> forbiddenHeaders =
       [''host'', ''connection'', ''content-length'', ''origin'', ''referer'', ''user-agent'',
        ''sec-fetch-mode'', ''sec-fetch-site'', ''sec-fetch-dest'']"
  by (simp add: sanitizeHeaders_def foldl_delete) (simp add: forbiddenHeaders_def)

theorem sanitizeHeaders_removes_listed_witness:
  "sanitizeHeaders (Some [''accept'' \<mapsto> ''*/*'', ''host'' \<mapsto> ''localhost'']) ''host'' = None
   \<and> sanitizeHeaders (Some [''accept'' \<mapsto> ''*/*'', ''host'' \<mapsto> ''localhost'']) ''accept''
       = Some ''*/*''"
proof -
  have a: "''host'' \<in> set forbiddenHeaders" by code_simp
  have b: "''accept'' \<notin> set forbiddenHeaders" by code_simp
  have c: "[''accept'' \<mapsto> ''*/*'', ''host'' \<mapsto> ''localhost''] ''accept'' = Some ''*/*''"
    by simp
  from sanitizeHeaders_removes_listed
         [THEN conjunct1, of "[''accept'' \<mapsto> ''*/*'', ''host'' \<mapsto> ''localhost'']" "''host''"]
       sanitizeHeaders_removes_listed
         [THEN conjunct1, of "[''accept'' \<mapsto> ''*/*'', ''host'' \<mapsto> ''localhost'']" "''accept''"]
       a b c
  show ?thesis by (simp only: if_True if_False simp_thms)
qed

text \<open>
  The claim as the specification words it fails: \<open>sec-fetch-user\<close> matches
  \<open>sec-fetch-*\<close> and survives the sanitisation.
\<close>

theorem sanitizeHeaders_counterexample:
  "startsWith ''sec-fetch-user'' ''sec-fetch-''
   \<and> sanitizeHeaders (Some [''sec-fetch-user'' \<mapsto> ''?1'', ''host'' \<mapsto> ''localhost''])
        ''sec-fetch-user'' = Some ''?1''"
  by (simp add: sanitizeHeaders_def forbiddenHeaders_def startsWith_def)

lemma splitFirst_Some: "splitFirst s p = Some (a, b) \<Longrightarrow> s = a @ p @ b"
proof (induction s arbitrary: a)
  case Nil
  then show ?case by (simp split: if_splits)
next
  case (Cons c s)
  show ?case
  proof (cases "startsWith (c # s) p")
    case True
    with Cons.prems have "a = []" "b = drop (length p) (c # s)" by simp_all
    moreover from True have "take (length p) (c # s) = p" by (simp add: startsWith_def)
    ultimately show ?thesis by (metis append_Nil append_take_drop_id)
  next
    case False
    with Cons.prems obtain a' where "splitFirst s p = Some (a', b)" "a = c # a'"
      by (auto split: option.splits)
    with Cons.IH show ?thesis by simp
  qed
qed

lemma readBody_fake:
  "mode \<noteq> ''real'' \<Longrightarrow>
     readBody mode operationId chunks (fullBody, frames) = (fullBody @ concat chunks, frames)"
  by (induction chunks arbitrary: fullBody) simp_all

lemma searchParams_delete_no_key:
  "(k, v) \<notin> set (searchParams_delete queryParams k)"
  by (simp add: searchParams_delete_def)

lemma map_of_distinct_sse:
  "distinct (map fst qs) \<Longrightarrow> (k, v) \<in> set qs \<Longrightarrow> map_of qs k = Some v"
  by simp

text \<open>
  The branch of \<open>_processProxyRequest\<close> for a response without a body stream: the headers
  frame is followed by an error frame with status 504, and no \<open>stream_close\<close> is sent.
\<close>

lemma processProxyRequest_null_body:
  "\<not> cancelledAtStart ex \<Longrightarrow> responseOutcome ex = Responded r \<Longrightarrow>
   \<not> cancelledAfterResponse ex \<Longrightarrow> response_body r = None \<Longrightarrow> request_id requestSpec \<noteq> [] \<Longrightarrow>
     processProxyRequest env requestSpec ex
       = transmitHeaders env r (request_id requestSpec)
           (case headers requestSpec of None \<Rightarrow> None | Some hs \<Rightarrow> hs ''host'')
         @ [ErrorFrame (request_id requestSpec)
              (''Proxy browser error: '' @
                 (if getReaderMessage env \<noteq> [] then getReaderMessage env else ''Unknown error''))
              504]"
  by (simp add: processProxyRequest_def Let_def sendErrorResponse_def getReaderError_def
                truthyString_def)

text \<open>
  Claim C4, as the code has it.  Take a descriptor with \<open>streaming_mode\<close> \<open>fake\<close>.
  If it has no \<open>url\<close> field, the query parameters lose \<open>alt\<close> exactly when its value is
  \<open>sse\<close> (an \<open>alt\<close> of another value and every parameter of another name are kept), the
  first \<open>:streamGenerateContent\<close> of the path becomes \<open>:generateContent\<close>, and
  \<open>pathAndQuery\<close> is built from the two.  With or without a \<open>url\<close>: when a response
  with a body stream arrives and the stream is read to EOF without a cancel, the frames are
  the response headers, then one chunk frame with the whole body unless the body is empty,
  then \<open>stream_close\<close>.
\<close>

theorem fake_mode_request:
  "streaming_mode requestSpec = Some ''fake'' \<Longrightarrow>
     (\<not> truthyString (url requestSpec) \<longrightarrow>
          adjustedQueryParams requestSpec
            = (if searchParams_get (query_params requestSpec) ''alt'' = Some ''sse''
               then searchParams_delete (query_params requestSpec) ''alt''
               else query_params requestSpec)
        \<and> (distinct (map fst (query_params requestSpec)) \<longrightarrow>
              (''alt'', ''sse'') \<notin> set (adjustedQueryParams requestSpec))
        \<and> filter (\<lambda>kv. fst kv \<noteq> ''alt'') (adjustedQueryParams requestSpec)
            = filter (\<lambda>kv. fst kv \<noteq> ''alt'') (query_params requestSpec)
        \<and> finalPath requestSpec
            = replaceFirst (pathSegment requestSpec) '':streamGenerateContent'' '':generateContent''
        \<and> (splitFirst (pathSegment requestSpec) '':streamGenerateContent'' = Some (a, b) \<longrightarrow>
              pathSegment requestSpec = a @ '':streamGenerateContent'' @ b
              \<and> finalPath requestSpec = a @ '':generateContent'' @ b)
        \<and> pathAndQuery enc requestSpec
            = finalPath requestSpec
              @ (if searchParams_toString enc (adjustedQueryParams requestSpec) \<noteq> []
                 then ''?'' @ searchParams_toString enc (adjustedQueryParams requestSpec) else []))
   \<and> (\<not> cancelledAtStart ex \<longrightarrow> responseOutcome ex = Responded r \<longrightarrow>
        \<not> cancelledAfterResponse ex \<longrightarrow> response_body r = Some bd \<longrightarrow> body_failure bd = None \<longrightarrow>
        processProxyRequest env requestSpec ex
          = transmitHeaders env r (request_id requestSpec)
              (case headers requestSpec of None \<Rightarrow> None | Some hs \<Rightarrow> hs ''host'')
            @ (if concat (body_chunks bd) = [] then []
               else [ChunkFrame (request_id requestSpec) (concat (body_chunks bd))])
            @ [StreamCloseFrame (request_id requestSpec)])"
proof (intro conjI impI)
  assume fake: "streaming_mode requestSpec = Some ''fake''"
  from fake show "adjustedQueryParams requestSpec
            = (if searchParams_get (query_params requestSpec) ''alt'' = Some ''sse''
               then searchParams_delete (query_params requestSpec) ''alt''
               else query_params requestSpec)"
    by (simp add: adjustedQueryParams_def Let_def searchParams_has_def searchParams_get_def)
  {
    assume d: "distinct (map fst (query_params requestSpec))"
    show "(''alt'', ''sse'') \<notin> set (adjustedQueryParams requestSpec)"
    proof (cases "map_of (query_params requestSpec) ''alt'' = Some ''sse''")
      case True
      with fake show ?thesis
        by (simp add: adjustedQueryParams_def Let_def searchParams_has_def searchParams_get_def
                      searchParams_delete_def)
    next
      case False
      with d have "(''alt'', ''sse'') \<notin> set (query_params requestSpec)"
        by (auto dest: map_of_distinct_sse)
      then show ?thesis
        by (simp add: adjustedQueryParams_def Let_def searchParams_delete_def)
    qed
  }
  show "filter (\<lambda>kv. fst kv \<noteq> ''alt'') (adjustedQueryParams requestSpec)
          = filter (\<lambda>kv. fst kv \<noteq> ''alt'') (query_params requestSpec)"
    by (simp add: adjustedQueryParams_def Let_def searchParams_delete_def)
  from fake show "finalPath requestSpec
       = replaceFirst (pathSegment requestSpec) '':streamGenerateContent'' '':generateContent''"
    by (simp add: finalPath_def Let_def str_includes_def replaceFirst_def split: option.splits)
  {
    assume s: "splitFirst (pathSegment requestSpec) '':streamGenerateContent'' = Some (a, b)"
    then show "pathSegment requestSpec = a @ '':streamGenerateContent'' @ b"
      by (rule splitFirst_Some)
    from s fake show "finalPath requestSpec = a @ '':generateContent'' @ b"
      by (simp add: finalPath_def Let_def str_includes_def replaceFirst_def pathSegment_def)
  }
  {
    assume nourl: "\<not> truthyString (url requestSpec)"
    then show "pathAndQuery enc requestSpec
       = finalPath requestSpec
         @ (if searchParams_toString enc (adjustedQueryParams requestSpec) \<noteq> []
            then ''?'' @ searchParams_toString enc (adjustedQueryParams requestSpec) else [])"
      by (simp add: pathAndQuery_def Let_def)
  }
  {
    assume "\<not> cancelledAtStart ex" "responseOutcome ex = Responded r"
           "\<not> cancelledAfterResponse ex" "response_body r = Some bd" "body_failure bd = None"
    with fake show "processProxyRequest env requestSpec ex
          = transmitHeaders env r (request_id requestSpec)
              (case headers requestSpec of None \<Rightarrow> None | Some hs \<Rightarrow> hs ''host'')
            @ (if concat (body_chunks bd) = [] then []
               else [ChunkFrame (request_id requestSpec) (concat (body_chunks bd))])
            @ [StreamCloseFrame (request_id requestSpec)]"
      by (simp add: processProxyRequest_def Let_def truthyString_def readBody_fake
                    transmitChunk_def transmitStreamEnd_def)
  }
qed

theorem fake_mode_request_witness:
  "streaming_mode fake_spec = Some ''fake'' \<and> \<not> truthyString (url fake_spec)
   \<and> distinct (map fst (query_params fake_spec))
   \<and> adjustedQueryParams fake_spec = [(''key'', ''k'')]
   \<and> splitFirst (pathSegment fake_spec) '':streamGenerateContent'' = Some (''/m'', [])
   \<and> finalPath fake_spec = ''/m:generateContent''
   \<and> pathAndQuery (\<lambda>s. s) fake_spec = ''/m:generateContent?key=k''
   \<and> streaming_mode json_spec = Some ''fake'' \<and> \<not> truthyString (url json_spec)
   \<and> adjustedQueryParams json_spec = [(''alt'', ''json''), (''key'', ''k'')]
   \<and> streaming_mode url_spec = Some ''fake'' \<and> truthyString (url url_spec)
   \<and> \<not> cancelledAtStart (ok_execution [''ab'', ''cd''])
   \<and> responseOutcome (ok_execution [''ab'', ''cd'']) = Responded (ok_response [''ab'', ''cd''])
   \<and> \<not> cancelledAfterResponse (ok_execution [''ab'', ''cd''])
   \<and> response_body (ok_response [''ab'', ''cd''])
       = Some \<lparr>body_chunks = [''ab'', ''cd''], body_failure = None\<rparr>
   \<and> processProxyRequest browser_example fake_spec (ok_execution [''ab'', ''cd''])
       = [ResponseHeadersFrame ''r1'' 200 [(''content-type'', ''text/plain'')],
          ChunkFrame ''r1'' ''abcd'', StreamCloseFrame ''r1'']
   \<and> processProxyRequest browser_example url_spec (ok_execution [''ab'', ''cd''])
       = [ResponseHeadersFrame ''r1'' 200 [(''content-type'', ''text/plain'')],
          ChunkFrame ''r1'' ''abcd'', StreamCloseFrame ''r1'']"
  using fake_mode_request
          [where requestSpec = fake_spec and a = "''/m''" and b = "[]" and enc = "\<lambda>s. s"
             and ex = "ok_execution [''ab'', ''cd'']" and r = "ok_response [''ab'', ''cd'']"
             and bd = "\<lparr>body_chunks = [''ab'', ''cd''], body_failure = None\<rparr>"
             and env = browser_example]
        fake_mode_request
          [where requestSpec = json_spec and a = "''/m''" and b = "[]" and enc = "\<lambda>s. s"
             and ex = "ok_execution [''ab'', ''cd'']" and r = "ok_response [''ab'', ''cd'']"
             and bd = "\<lparr>body_chunks = [''ab'', ''cd''], body_failure = None\<rparr>"
             and env = browser_example]
        fake_mode_request
          [where requestSpec = url_spec and a = "''/m''" and b = "[]" and enc = "\<lambda>s. s"
             and ex = "ok_execution [''ab'', ''cd'']" and r = "ok_response [''ab'', ''cd'']"
             and bd = "\<lparr>body_chunks = [''ab'', ''cd''], body_failure = None\<rparr>"
             and env = browser_example]
  by (simp add: fake_spec_def json_spec_def url_spec_def ok_execution_def ok_response_def
                truthyString_def pathSegment_def startsWith_def transmitHeaders_def
                toLowerCase_def toLowerCase_char_def replaceFirst_def searchParams_get_def
                searchParams_delete_def searchParams_toString_def browser_example_def)

text \<open>
  The claim as the specification words it fails in two places: a descriptor that carries
  a \<open>url\<close> is sent with \<open>alt=sse\<close> and \<open>:streamGenerateContent\<close> untouched, and a
  body stream that ends without a byte gives no chunk frame at all.
\<close>

theorem fake_mode_counterexample:
  "streaming_mode url_spec = Some ''fake''
   \<and> pathAndQuery (\<lambda>s. s) url_spec = ''/m:streamGenerateContent?alt=sse''
   \<and> streaming_mode fake_spec = Some ''fake''
   \<and> processProxyRequest browser_example fake_spec (ok_execution [])
       = [ResponseHeadersFrame ''r1'' 200 [(''content-type'', ''text/plain'')],
          StreamCloseFrame ''r1'']"
  by (simp add: url_spec_def fake_spec_def pathAndQuery_def truthyString_def
                processProxyRequest_def ok_execution_def ok_response_def transmitHeaders_def
                transmitChunk_def transmitStreamEnd_def toLowerCase_def toLowerCase_char_def
                Let_def browser_example_def)

lemma toUpperCase_char_idem: "toUpperCase_char (toUpperCase_char c) = toUpperCase_char c"
  by (auto simp: toUpperCase_char_def Let_def)

lemma toUpperCase_idem: "toUpperCase (toUpperCase s) = toUpperCase s"
  by (simp add: toUpperCase_def toUpperCase_char_idem)

lemma upperIfString_idem: "upperIfString (upperIfString m) = upperIfString m"
  by (cases m) (simp_all add: upperIfString_def toUpperCase_idem)

lemma upperIfString_JStr: "upperIfString (JStr s) = JStr (toUpperCase s)"
  by (simp add: upperIfString_def)

lemma map_upperIfString_idem: "map upperIfString (map upperIfString ms) = map upperIfString ms"
  by (induction ms) (simp_all add: upperIfString_idem)

text \<open>
  Claim C8.  Normalising \<open>responseModalities\<close> (a string is upper-cased and wrapped in an
  array, the string elements of an array are upper-cased, anything else is kept) twice
  gives the same value as normalising it once.
\<close>

theorem responseModalities_idempotent:
  "normalizeResponseModalities (normalizeResponseModalities v) = normalizeResponseModalities v"
proof (cases v)
  case None
  then show ?thesis by (simp add: normalizeResponseModalities_def)
next
  case (Some j)
  then show ?thesis
    by (cases j)
       (simp_all add: normalizeResponseModalities_def map_upperIfString_idem toUpperCase_idem
                      upperIfString_JStr
                 del: map_map)
qed

theorem responseModalities_idempotent_witness:
  "normalizeResponseModalities (Some (JStr ''image'')) = Some (JArr [JStr ''IMAGE''])
   \<and> normalizeResponseModalities (Some (JArr [JStr ''IMAGE''])) = Some (JArr [JStr ''IMAGE''])"
proof -
  have e: "normalizeResponseModalities (Some (JStr ''image'')) = Some (JArr [JStr ''IMAGE''])"
    by code_simp
  from responseModalities_idempotent [of "Some (JStr ''image'')"] e show ?thesis
    by simp
qed

section \<open>Properties of the format converter: requests\<close>

lemma flushToolParts_empty: "flushToolParts ([], acc) = ([], acc)"
  by (simp add: flushToolParts_def)

lemma flushToolParts_pending:
  "pending \<noteq> [] \<Longrightarrow>
     flushToolParts (pending, acc) = ([], acc @ [\<lparr>parts = Some pending, role = ''user''\<rparr>])"
  by (simp add: flushToolParts_def)

lemma convertMessages_flush:
  "list_all (\<lambda>m. m_role m \<noteq> ''system'') ms \<Longrightarrow>
   snd (flushToolParts (convertMessages env ms (pending, acc)))
     = acc @ (if pending = [] then coalesceToolRuns_spec env ms
              else \<lparr>parts = Some (pending @ map (functionResponsePart env) (takeWhile isToolMessage ms)),
                    role = ''user''\<rparr>
                   # coalesceToolRuns_spec env (dropWhile isToolMessage ms))"
proof (induction ms arbitrary: pending acc)
  case Nil
  then show ?case by (cases "pending = []") (simp_all add: flushToolParts_empty flushToolParts_pending)
next
  case (Cons m ms)
  then have rest: "list_all (\<lambda>m. m_role m \<noteq> ''system'') ms" and ns: "m_role m \<noteq> ''system''"
    by simp_all
  show ?case
  proof (cases "m_role m = ''tool''")
    case True
    then show ?thesis
      using Cons.IH [OF rest, of "pending @ [functionResponsePart env m]" acc]
      by (simp add: isToolMessage_def)
  next
    case False
    show ?thesis
    proof (cases "pending = []")
      case True
      with False ns Cons.IH [OF rest, of "[]" "acc @ messageEntries env m"] show ?thesis
        by (simp add: isToolMessage_def flushToolParts_empty nonToolEntries_spec_def)
    next
      case nonempty: False
      with False ns
        Cons.IH [OF rest, of "[]"
                 "(acc @ [\<lparr>parts = Some pending, role = ''user''\<rparr>]) @ messageEntries env m"]
      show ?thesis
        by (simp add: isToolMessage_def flushToolParts_pending nonToolEntries_spec_def)
    qed
  qed
qed

text \<open>
  Claim C1, as the code has it.  The \<open>contents\<close> of the translated request are obtained
  from the conversation, that is the messages with the system messages taken out, by the
  coalescing rule: every maximal run of consecutive tool messages of the conversation gives
  exactly one entry, of role \<open>user\<close>, whose parts are the function responses of the run in
  order, and a non-tool, non-system message between two runs separates their entries.
\<close>

theorem tool_runs_coalesce:
  "contents (translateOpenAIToGoogle env openaiBody)
     = Some (coalesceToolRuns_spec env
               (filter (\<lambda>msg. m_role msg \<noteq> ''system'') (body_messages openaiBody)))"
  using convertMessages_flush
          [of "filter (\<lambda>msg. m_role msg \<noteq> ''system'') (body_messages openaiBody)" env "[]" "[]"]
  by (simp add: translateOpenAIToGoogle_def Let_def list_all_iff)

theorem tool_runs_coalesce_witness:
  "contents (translateOpenAIToGoogle requestEnv_example conversation_body)
     = Some [\<lparr>parts = Some [emptyPart\<lparr>part_text := Some ''hi''\<rparr>], role = ''user''\<rparr>,
             \<lparr>parts = Some [emptyPart\<lparr>functionCall := Some \<lparr>args = Some (JNum 1), name = ''f''\<rparr>,
                                        thoughtSignature := Some DUMMY_THOUGHT_SIGNATURE\<rparr>,
                            emptyPart\<lparr>functionCall := Some \<lparr>args = Some (JObj []), name = ''g''\<rparr>\<rparr>],
              role = ''model''\<rparr>,
             \<lparr>parts = Some [functionResponsePart requestEnv_example (toolMessage ''f'' ''1''),
                            functionResponsePart requestEnv_example (toolMessage ''g'' ''zz'')],
              role = ''user''\<rparr>,
             \<lparr>parts = Some [functionResponsePart requestEnv_example (toolMessage ''g'' ''2'')],
              role = ''user''\<rparr>,
             \<lparr>parts = Some [emptyPart\<lparr>part_text := Some ''thanks''\<rparr>], role = ''user''\<rparr>]"
  using tool_runs_coalesce [of requestEnv_example conversation_body]
  by (simp add: conversation_body_def toolMessage_def textMessage_def isToolMessage_def
                nonToolEntries_spec_def messageEntries_def messageParts_def requestEnv_example_def
                emptyPart_def Let_def)

text \<open>
  The claim as the specification words it, runs taken in the request's message list, fails:
  a system message between two tool messages does not end the run; the two tool messages
  land in one entry, although they form two maximal runs of the message list.
\<close>

theorem tool_runs_counterexample:
  "contents (translateOpenAIToGoogle requestEnv_example interleaved_body)
     = Some [\<lparr>parts = Some [functionResponsePart requestEnv_example (toolMessage ''f'' ''1''),
                            functionResponsePart requestEnv_example (toolMessage ''g'' ''2'')],
              role = ''user''\<rparr>]
   \<and> coalesceToolRuns_spec requestEnv_example (body_messages interleaved_body)
       = [\<lparr>parts = Some [functionResponsePart requestEnv_example (toolMessage ''f'' ''1'')],
           role = ''user''\<rparr>,
          \<lparr>parts = Some [functionResponsePart requestEnv_example (toolMessage ''g'' ''2'')],
           role = ''user''\<rparr>]"
  by (simp add: translateOpenAIToGoogle_def interleaved_body_def toolMessage_def textMessage_def
                flushToolParts_def isToolMessage_def nonToolEntries_spec_def Let_def)

end
